theory Spec2Isabelle
  imports Main "HOL-Library.Word"
begin

section \<open>The synchronizer of the node (sync/sync.go)\<close>

text \<open>
  A shallow embedding of \<^verbatim>\<open>sync/sync.go\<close>, \<^verbatim>\<open>sync/peerset/peer.go\<close> and
  \<^verbatim>\<open>sync/peerset/session.go\<close>. Go's \<^verbatim>\<open>uint32\<close> is \<open>32 word\<close>, so that
  \<open>+\<close> wraps around as it does in Go. A \<^verbatim>\<open>nil\<close> pointer or slice is \<open>None\<close>.
\<close>

subsection \<open>Basic types\<close>

type_synonym u32 = "32 word"
type_synonym bytes = "8 word list"
type_synonym peer_id = string
type_synonym hash = string
type_synonym address = string
type_synonym public_key = string
type_synonym validator_key = string
type_synonym certificate = string
type_synonym time = int

text \<open>The ten message types registered by \<^verbatim>\<open>NewSynchronizer\<close>; \<^verbatim>\<open>message.Type\<close>
  is an integer type, so other values exist.\<close>

datatype msg_type =
    TypeHello | TypeHelloAck | TypeTransactions | TypeQueryProposal | TypeProposal
  | TypeQueryVotes | TypeVote | TypeBlockAnnounce | TypeBlocksRequest | TypeBlocksResponse
  | TypeOther nat

datatype error =
    ErrInvalidMessage msg_type
  | ErrGeneric string

subsection \<open>The state collaborator (state.Facade)\<close>

datatype chain_type = Mainnet | Testnet | Localnet

record genesis =
  Hash :: hash
  ChainType :: chain_type

record committed_block =
  Data :: bytes

text \<open>
  The answers of the state facade that \<^verbatim>\<open>sync.go\<close> reads: \<^verbatim>\<open>LastBlockHeight()\<close>,
  \<^verbatim>\<open>LastBlockHash()\<close>, \<^verbatim>\<open>Genesis()\<close>, \<^verbatim>\<open>CommittedBlock(h)\<close> and
  \<^verbatim>\<open>PublicKey(addr)\<close>. The facade is an interface whose implementation lies outside
  the synchronizer, so every answer is a field that may hold any value.
\<close>

record state =
  LastBlockHeight :: u32
  LastBlockHash :: hash
  Genesis :: genesis
  CommittedBlock :: "u32 \<Rightarrow> committed_block option"
  PublicKey :: "address \<Rightarrow> error + public_key"

subsection \<open>Blocks and the cache\<close>

text \<open>A transaction as \<^verbatim>\<open>tryCommitBlocks\<close> sees it: its public key is stripped
  (\<^verbatim>\<open>IsPublicKeyStriped\<close>) when absent, and \<^verbatim>\<open>Payload().Signer()\<close> names the
  account whose key the state is asked for.\<close>

record Tx =
  TxPublicKey :: "public_key option"
  Signer :: address

definition IsPublicKeyStriped :: "Tx \<Rightarrow> bool" where
  "IsPublicKeyStriped trx = (TxPublicKey trx = None)"

definition SetPublicKey :: "public_key \<Rightarrow> Tx \<Rightarrow> Tx" where
  "SetPublicKey pub trx = trx\<lparr>TxPublicKey := Some pub\<rparr>"

record block =
  Transactions :: "Tx list"
  Header :: string

text \<open>Modelled from the spec: the cache (package \<^verbatim>\<open>sync/cache\<close> is not among the
  sources) is the mapping \<open>height \<rightarrow> block\<close> and \<open>height \<rightarrow> certificate\<close> of section
  4.2. Eviction is not modelled; no function of \<^verbatim>\<open>sync.go\<close> modelled here adds an
  entry.\<close>

record Cache =
  cachedBlocks :: "u32 \<Rightarrow> block option"
  cachedCerts :: "u32 \<Rightarrow> certificate option"

definition GetBlock :: "Cache \<Rightarrow> u32 \<Rightarrow> block option" where
  "GetBlock c h = cachedBlocks c h"

definition GetCertificate :: "Cache \<Rightarrow> u32 \<Rightarrow> certificate option" where
  "GetCertificate c h = cachedCerts c h"

definition HasBlockInCache :: "Cache \<Rightarrow> u32 \<Rightarrow> bool" where
  "HasBlockInCache c h = (cachedBlocks c h \<noteq> None)"

subsection \<open>Messages and bundles\<close>

datatype service = Network

text \<open>Modelled from the spec: \<^verbatim>\<open>service.New\<close> and \<^verbatim>\<open>Services.IsNetwork\<close> (package
  \<^verbatim>\<open>sync/service\<close> is not among the sources): the services of a node are a set,
  and \<open>Network\<close> is the one service the spec names.\<close>

definition service_New :: "service list \<Rightarrow> service set" where
  "service_New services = set services"

definition IsNetwork :: "service set \<Rightarrow> bool" where
  "IsNetwork ss = (Network \<in> ss)"

text \<open>Modelled from the spec: the Hello message (package \<^verbatim>\<open>sync/bundle/message\<close> is
  not among the sources). \<^verbatim>\<open>NewHelloMessage\<close> stores its six arguments; \<^verbatim>\<open>Sign\<close>
  makes the message carry the signatures of the keys it is given, which the
  model records as the list of those keys.\<close>

record HelloMessage =
  HelloPeerID :: peer_id
  HelloMoniker :: string
  HelloHeight :: u32
  HelloServices :: "service set"
  HelloBlockHash :: hash
  HelloGenesisHash :: hash
  SignedBy :: "validator_key list"

definition NewHelloMessage ::
  "peer_id \<Rightarrow> string \<Rightarrow> u32 \<Rightarrow> service set \<Rightarrow> hash \<Rightarrow> hash \<Rightarrow> HelloMessage" where
  "NewHelloMessage pid moniker height services blockHash genesisHash =
     \<lparr>HelloPeerID = pid, HelloMoniker = moniker, HelloHeight = height,
      HelloServices = services, HelloBlockHash = blockHash,
      HelloGenesisHash = genesisHash, SignedBy = []\<rparr>"

definition Sign :: "validator_key list \<Rightarrow> HelloMessage \<Rightarrow> HelloMessage" where
  "Sign keys m = m\<lparr>SignedBy := keys\<rparr>"

text \<open>\<^verbatim>\<open>BlocksRequestMessage\<close> holds the session id, the first height and the count.
  Every other message is kept by its type only.\<close>

datatype message =
    Hello HelloMessage
  | BlocksRequest int u32 u32
  | OtherMessage msg_type

fun Type :: "message \<Rightarrow> msg_type" where
  "Type (Hello m) = TypeHello"
| "Type (BlocksRequest sid from count) = TypeBlocksRequest"
| "Type (OtherMessage t) = t"

text \<open>Modelled from the spec: the flags of a bundle (package \<^verbatim>\<open>sync/bundle\<close> and
  \<^verbatim>\<open>util.SetFlag\<close>, \<^verbatim>\<open>util.IsFlagSet\<close> are not among the sources). Section 6 gives
  the flag bits as disjoint, so a flag word is the set of the flags it has set.\<close>

datatype bundle_flag =
    BundleFlagCarrierLibP2P
  | BundleFlagNetworkMainnet
  | BundleFlagNetworkTestnet
  | BundleFlagBroadcasted
  | BundleFlagHandshaking

definition SetFlag :: "bundle_flag set \<Rightarrow> bundle_flag \<Rightarrow> bundle_flag set" where
  "SetFlag flags flag = insert flag flags"

definition IsFlagSet :: "bundle_flag set \<Rightarrow> bundle_flag \<Rightarrow> bool" where
  "IsFlagSet flags flag = (flag \<in> flags)"

record Bundle =
  Flags :: "bundle_flag set"
  Initiator :: peer_id
  Message :: message

definition NewBundle :: "peer_id \<Rightarrow> message \<Rightarrow> Bundle" where
  "NewBundle initiator msg = \<lparr>Flags = {}, Initiator = initiator, Message = msg\<rparr>"

subsection \<open>Peers (sync/peerset/peer.go)\<close>

datatype StatusCode =
    StatusCodeBanned | StatusCodeDisconnected | StatusCodeUnknown
  | StatusCodeConnected | StatusCodeKnown | StatusCodeTrusty

record Peer =
  Status :: StatusCode
  Moniker :: string
  Agent :: string
  Address :: string
  PeerID :: peer_id
  ConsensusKeys :: "public_key list"
  Services :: "service set"
  LastSent :: time
  LastReceived :: time
  PeerLastBlockHash :: hash
  Height :: u32
  ReceivedBundles :: int
  InvalidBundles :: int
  ReceivedBytes :: "msg_type \<Rightarrow> int"
  SentBytes :: "msg_type \<Rightarrow> int"

definition NewPeer :: "peer_id \<Rightarrow> Peer" where
  "NewPeer peerID =
     \<lparr>Status = StatusCodeUnknown, Moniker = [], Agent = [], Address = [],
      PeerID = peerID, ConsensusKeys = [], Services = {}, LastSent = 0,
      LastReceived = 0, PeerLastBlockHash = [], Height = 0, ReceivedBundles = 0,
      InvalidBundles = 0, ReceivedBytes = (\<lambda>t. 0), SentBytes = (\<lambda>t. 0)\<rparr>"

definition IsKnownOrTrusty :: "Peer \<Rightarrow> bool" where
  "IsKnownOrTrusty p = (Status p = StatusCodeKnown \<or> Status p = StatusCodeTrusty)"

definition IsBanned :: "Peer \<Rightarrow> bool" where
  "IsBanned p = (Status p = StatusCodeBanned)"

definition HasNetworkService :: "Peer \<Rightarrow> bool" where
  "HasNetworkService p = IsNetwork (Services p)"

subsection \<open>Sessions (sync/peerset/session.go)\<close>

record Session =
  SessionID :: int
  SessionPeerID :: peer_id
  LastResponseCode :: int
  LastActivityAt :: time

text \<open>\<^verbatim>\<open>util.Now()\<close> is the argument \<open>now\<close>.\<close>

definition newSession :: "int \<Rightarrow> peer_id \<Rightarrow> time \<Rightarrow> Session" where
  "newSession sid peerID now =
     \<lparr>SessionID = sid, SessionPeerID = peerID, LastResponseCode = 0, LastActivityAt = now\<rparr>"

definition SetLastResponseCode :: "int \<Rightarrow> time \<Rightarrow> Session \<Rightarrow> Session" where
  "SetLastResponseCode code now s = s\<lparr>LastResponseCode := code, LastActivityAt := now\<rparr>"

subsection \<open>The peer registry\<close>

text \<open>Modelled from the spec: the peer registry (\<^verbatim>\<open>sync/peerset/peerset.go\<close> is not
  among the sources), after section 4.1. Peers are kept in the order
  \<^verbatim>\<open>IteratePeers\<close> visits them and are created on first reference; a session
  is open while it is in \<open>sessions\<close>; session ids come from a counter that only
  grows; a byte counter called without a peer updates the aggregate only.\<close>

record PeerSet =
  peers :: "Peer list"
  sessions :: "Session list"
  nextSessionID :: int
  totalSentBytes :: int

definition NewPeerSet :: PeerSet where
  "NewPeerSet = \<lparr>peers = [], sessions = [], nextSessionID = 0, totalSentBytes = 0\<rparr>"

definition GetPeer :: "PeerSet \<Rightarrow> peer_id \<Rightarrow> Peer option" where
  "GetPeer ps pid = find (\<lambda>p. PeerID p = pid) (peers ps)"

definition mutatePeer :: "peer_id \<Rightarrow> (Peer \<Rightarrow> Peer) \<Rightarrow> PeerSet \<Rightarrow> PeerSet" where
  "mutatePeer pid f ps =
     (if \<exists>p \<in> set (peers ps). PeerID p = pid
      then ps\<lparr>peers := map (\<lambda>p. if PeerID p = pid then f p else p) (peers ps)\<rparr>
      else ps\<lparr>peers := peers ps @ [f (NewPeer pid)]\<rparr>)"

definition UpdateStatus :: "peer_id \<Rightarrow> StatusCode \<Rightarrow> PeerSet \<Rightarrow> PeerSet" where
  "UpdateStatus pid status ps = mutatePeer pid (\<lambda>p. p\<lparr>Status := status\<rparr>) ps"

definition UpdateAddress :: "peer_id \<Rightarrow> string \<Rightarrow> PeerSet \<Rightarrow> PeerSet" where
  "UpdateAddress pid addr ps = mutatePeer pid (\<lambda>p. p\<lparr>Address := addr\<rparr>) ps"

definition UpdateLastSent :: "peer_id \<Rightarrow> time \<Rightarrow> PeerSet \<Rightarrow> PeerSet" where
  "UpdateLastSent pid now ps = mutatePeer pid (\<lambda>p. p\<lparr>LastSent := now\<rparr>) ps"

definition IncreaseInvalidBundlesCounter :: "peer_id \<Rightarrow> PeerSet \<Rightarrow> PeerSet" where
  "IncreaseInvalidBundlesCounter pid ps =
     mutatePeer pid (\<lambda>p. p\<lparr>InvalidBundles := InvalidBundles p + 1\<rparr>) ps"

definition IncreaseSentBytesCounter :: "msg_type \<Rightarrow> int \<Rightarrow> peer_id option \<Rightarrow> PeerSet \<Rightarrow> PeerSet" where
  "IncreaseSentBytesCounter t c pid ps =
     (let ps' = ps\<lparr>totalSentBytes := totalSentBytes ps + c\<rparr> in
      case pid of
        None \<Rightarrow> ps'
      | Some to \<Rightarrow> mutatePeer to (\<lambda>p. p\<lparr>SentBytes := (SentBytes p)(t := SentBytes p t + c)\<rparr>) ps')"

definition OpenSession :: "peer_id \<Rightarrow> time \<Rightarrow> PeerSet \<Rightarrow> Session \<times> PeerSet" where
  "OpenSession pid now ps =
     (let s = newSession (nextSessionID ps) pid now in
      (s, ps\<lparr>sessions := sessions ps @ [s], nextSessionID := nextSessionID ps + 1\<rparr>))"

definition CloseSession :: "int \<Rightarrow> PeerSet \<Rightarrow> PeerSet" where
  "CloseSession sid ps = ps\<lparr>sessions := filter (\<lambda>s. SessionID s \<noteq> sid) (sessions ps)\<rparr>"

definition HasOpenSession :: "PeerSet \<Rightarrow> peer_id \<Rightarrow> bool" where
  "HasOpenSession ps pid = (\<exists>s \<in> set (sessions ps). SessionPeerID s = pid)"

definition HasAnyOpenSession :: "PeerSet \<Rightarrow> bool" where
  "HasAnyOpenSession ps = (sessions ps \<noteq> [])"

subsection \<open>prepareBlocks\<close>

text \<open>
  The loop \<^verbatim>\<open>for h := from; h < from+count; h++\<close> of \<^verbatim>\<open>prepareBlocks\<close>, with the
  bound \<open>from + count\<close> already computed (it is evaluated with the clamped \<open>count\<close>).
  It returns \<open>None\<close> (Go's \<^verbatim>\<open>nil\<close>) as soon as a committed block is missing.
\<close>

function prepareBlocks_loop :: "state \<Rightarrow> u32 \<Rightarrow> u32 \<Rightarrow> bytes list \<Rightarrow> bytes list option" where
  "prepareBlocks_loop st h bound blocks =
     (if h < bound then
        (case CommittedBlock st h of
           None \<Rightarrow> None
         | Some b \<Rightarrow> prepareBlocks_loop st (h + 1) bound (blocks @ [Data b]))
      else Some blocks)"
  by pat_completeness auto
termination
proof (relation "measure (\<lambda>(st, h, bound, blocks). unat bound - unat h)")
  show "wf (measure (\<lambda>(st, h, bound, blocks). unat bound - unat h))" by simp
next
  fix st :: state and h bound :: u32 and blocks :: "bytes list" and x2 :: committed_block
  assume lt: "h < bound"
  then have lt': "unat h < unat bound"
    by (simp add: word_less_nat_alt)
  moreover have "unat bound < 2 ^ 32"
    using unsigned_less [of bound] by simp
  ultimately have "unat h + 1 < 2 ^ 32"
    by linarith
  then have "unat (h + 1) = Suc (unat h)"
    by (simp add: unat_word_ariths)
  with lt' have "unat bound - unat (h + 1) < unat bound - unat h"
    by linarith
  then show "((st, h + 1, bound, blocks @ [Data x2]), (st, h, bound, blocks))
      \<in> measure (\<lambda>(st, h, bound, blocks). unat bound - unat h)"
    by simp
qed

declare prepareBlocks_loop.simps [simp del]
text \<open>
  \<^verbatim>\<open>prepareBlocks(from, count)\<close>: \<open>None\<close> is the \<^verbatim>\<open>nil\<close> slice, \<open>Some []\<close> the
  empty slice that \<^verbatim>\<open>make([][]byte, 0, count)\<close> allocates.
\<close>

definition prepareBlocks :: "state \<Rightarrow> u32 \<Rightarrow> u32 \<Rightarrow> bytes list option" where
  "prepareBlocks st from count =
     (let ourHeight = LastBlockHeight st in
      if from > ourHeight then None
      else
        let count' = (if from + count > ourHeight then ourHeight - from + 1 else count)
        in prepareBlocks_loop st from (from + count') [])"

subsection \<open>The synchronizer and its collaborators\<close>

text \<open>The fields of \<^verbatim>\<open>sync.Config\<close> that the synchronizer reads.\<close>

record Config =
  Moniker :: string
  SessionTimeout :: int
  NodeNetwork :: bool
  BlockPerMessage :: u32
  CacheSize :: u32

text \<open>The context of the synchronizer. \<^verbatim>\<open>NewSynchronizer\<close> stores
  \<^verbatim>\<open>context.Background()\<close>, which is never cancelled; a context made with
  \<^verbatim>\<open>context.WithCancel\<close> carries whether its cancel function has been called.
  \<open>Done\<close> tells whether a receive on the channel \<^verbatim>\<open>ctx.Done()\<close> can proceed, which
  is when that channel is closed.\<close>

datatype Context = Background | WithCancel bool

fun Done :: "Context \<Rightarrow> bool" where
  "Done Background = False"
| "Done (WithCancel cancelled) = cancelled"

text \<open>The transport: its own peer id and the calls the synchronizer has made on it,
  oldest first. \<^verbatim>\<open>bdl.Encode()\<close> is outside the sources, so a call holds the bundle
  whose encoding was handed over.\<close>

datatype topic = TopicGeneral | TopicConsensus

datatype net_call =
    SendTo Bundle peer_id
  | Broadcast Bundle topic
  | CloseConnection peer_id

record Network =
  SelfID :: peer_id
  calls :: "net_call list"

record synchronizer =
  ctx :: Context
  config :: Config
  valKeys :: "validator_key list"
  state :: state
  peerSet :: PeerSet
  cache :: Cache
  network :: Network

text \<open>A message handler, as \<^verbatim>\<open>sync.go\<close> uses it. \<^verbatim>\<open>ParseMessage\<close> may change the
  synchronizer; \<^verbatim>\<open>PrepareBundle\<close> reads it.\<close>

record messageHandler =
  ParseMessage :: "message \<Rightarrow> peer_id \<Rightarrow> synchronizer \<Rightarrow> error option \<times> synchronizer"
  PrepareBundle :: "message \<Rightarrow> synchronizer \<Rightarrow> Bundle option"

text \<open>
  What the synchronizer gets from outside \<^verbatim>\<open>sync.go\<close>. The handler table is the
  field \<^verbatim>\<open>handlers\<close> of the Go struct, kept here because a handler refers to the
  synchronizer. The other fields are the module variable \<^verbatim>\<open>LatestBlockInterval\<close>,
  the clock, the value that \<^verbatim>\<open>updateBlockchain\<close> computes in floating point for
  \<^verbatim>\<open>numOfBlocks\<close> (taken as given), the length of an encoded bundle, the topic
  of a message type, the answer of the transport to \<^verbatim>\<open>SendTo\<close> (the error of
  \<^verbatim>\<open>Broadcast\<close> is only logged), the firewall, the basic checks of blocks and certificates, and
  \<^verbatim>\<open>CommitBlock\<close> of the state.
\<close>

record env =
  handlers :: "msg_type \<Rightarrow> messageHandler option"
  LatestBlockInterval :: u32
  Now :: time
  numOfBlocks :: "time \<Rightarrow> state \<Rightarrow> u32"
  EncodedLen :: "Bundle \<Rightarrow> int"
  TopicID :: "msg_type \<Rightarrow> topic"
  SendToError :: "Network \<Rightarrow> Bundle \<Rightarrow> peer_id \<Rightarrow> error option"
  OpenGossipBundle :: "bytes \<Rightarrow> peer_id \<Rightarrow> peer_id \<Rightarrow> synchronizer \<Rightarrow> Bundle option \<times> synchronizer"
  OpenStreamBundle :: "bytes \<Rightarrow> peer_id \<Rightarrow> synchronizer \<Rightarrow> Bundle option \<times> synchronizer"
  BlockBasicCheck :: "block \<Rightarrow> error option"
  CertBasicCheck :: "certificate \<Rightarrow> error option"
  CommitBlock :: "state \<Rightarrow> block \<Rightarrow> certificate \<Rightarrow> error + state"

subsection \<open>The handlers that NewSynchronizer registers\<close>

text \<open>Modelled from the spec: \<^verbatim>\<open>PrepareBundle\<close> of the handlers (the files
  \<^verbatim>\<open>sync/handler_*.go\<close> are not among the sources). By section 4.4 it wraps the
  message in a bundle and sets the flags of its type, or returns \<^verbatim>\<open>nil\<close> to
  suppress sending; by section 8 (6) the flag of a type is \<open>Handshaking\<close>, for
  \<open>Hello\<close> and \<open>HelloAck\<close>. Whether sending is suppressed is the argument
  \<open>nothingToShare\<close>.\<close>

definition handler_PrepareBundle ::
  "(message \<Rightarrow> synchronizer \<Rightarrow> bool) \<Rightarrow> message \<Rightarrow> synchronizer \<Rightarrow> Bundle option" where
  "handler_PrepareBundle nothingToShare msg sync =
     (if nothingToShare msg sync then None
      else
        let bdl = NewBundle (SelfID (network sync)) msg in
        if Type msg = TypeHello \<or> Type msg = TypeHelloAck
        then Some (bdl\<lparr>Flags := SetFlag (Flags bdl) BundleFlagHandshaking\<rparr>)
        else Some bdl)"

definition newHandler ::
  "(message \<Rightarrow> peer_id \<Rightarrow> synchronizer \<Rightarrow> error option \<times> synchronizer) \<Rightarrow>
   (message \<Rightarrow> synchronizer \<Rightarrow> bool) \<Rightarrow> messageHandler" where
  "newHandler parse nothingToShare =
     \<lparr>ParseMessage = parse, PrepareBundle = handler_PrepareBundle nothingToShare\<rparr>"

text \<open>The table \<^verbatim>\<open>NewSynchronizer\<close> fills: one handler for each of the ten types.\<close>

definition registeredTypes :: "msg_type list" where
  "registeredTypes =
     [TypeHello, TypeHelloAck, TypeTransactions, TypeQueryProposal, TypeProposal,
      TypeQueryVotes, TypeVote, TypeBlockAnnounce, TypeBlocksRequest, TypeBlocksResponse]"

definition NewSynchronizer_handlers ::
  "(msg_type \<Rightarrow> message \<Rightarrow> peer_id \<Rightarrow> synchronizer \<Rightarrow> error option \<times> synchronizer) \<Rightarrow>
   (message \<Rightarrow> synchronizer \<Rightarrow> bool) \<Rightarrow> msg_type \<Rightarrow> messageHandler option" where
  "NewSynchronizer_handlers parse nothingToShare t =
     (if t \<in> set registeredTypes then Some (newHandler (parse t) nothingToShare) else None)"

text \<open>Modelled from the spec: \<^verbatim>\<open>cache.NewCache\<close> fails on a size of zero
  (section 7) and otherwise gives an empty cache.\<close>

definition NewCache :: "u32 \<Rightarrow> error + Cache" where
  "NewCache capacity =
     (if capacity = 0 then Inl (ErrGeneric ''invalid cache size'')
      else Inr \<lparr>cachedBlocks = (\<lambda>h. None), cachedCerts = (\<lambda>h. None)\<rparr>)"

definition NewSynchronizer ::
  "Config \<Rightarrow> validator_key list \<Rightarrow> state \<Rightarrow> Network \<Rightarrow> error + synchronizer" where
  "NewSynchronizer conf keys st net =
     (case NewCache (CacheSize conf) of
        Inl err \<Rightarrow> Inl err
      | Inr ca \<Rightarrow>
          Inr \<lparr>ctx = Background, config = conf, valKeys = keys, state = st,
               peerSet = NewPeerSet, cache = ca, network = net\<rparr>)"

text \<open>\<^verbatim>\<open>Stop\<close> evaluates \<^verbatim>\<open>sync.ctx.Done()\<close>, which returns the channel of the
  context and changes nothing.\<close>

definition Stop :: "synchronizer \<Rightarrow> synchronizer" where
  "Stop sync = sync"

subsection \<open>Sending: prepareBundle, sendTo, broadcast, sayHello\<close>

definition prepareBundle :: "env \<Rightarrow> synchronizer \<Rightarrow> message \<Rightarrow> Bundle option" where
  "prepareBundle e sync msg =
     (case handlers e (Type msg) of
        None \<Rightarrow> None
      | Some h \<Rightarrow>
          (case PrepareBundle h msg sync of
             None \<Rightarrow> None
           | Some bdl \<Rightarrow>
               let bdl1 = bdl\<lparr>Flags := SetFlag (Flags bdl) BundleFlagCarrierLibP2P\<rparr> in
               (case ChainType (Genesis (state sync)) of
                  Mainnet \<Rightarrow> Some (bdl1\<lparr>Flags := SetFlag (Flags bdl1) BundleFlagNetworkMainnet\<rparr>)
                | Testnet \<Rightarrow> Some (bdl1\<lparr>Flags := SetFlag (Flags bdl1) BundleFlagNetworkTestnet\<rparr>)
                | Localnet \<Rightarrow> Some bdl1)))"

text \<open>\<^verbatim>\<open>sendTo\<close> returns the error of the transport, if any, and the synchronizer
  after the counters and the transport have been updated.\<close>

definition sendTo :: "env \<Rightarrow> message \<Rightarrow> peer_id \<Rightarrow> synchronizer \<Rightarrow> error option \<times> synchronizer" where
  "sendTo e msg to sync =
     (case prepareBundle e sync msg of
        None \<Rightarrow> (None, sync)
      | Some bdl \<Rightarrow>
          let ps1 = UpdateLastSent to (Now e) (peerSet sync);
              ps2 = IncreaseSentBytesCounter (Type msg) (EncodedLen e bdl) (Some to) ps1;
              net = network sync;
              err = SendToError e net bdl to;
              sync' = sync\<lparr>peerSet := ps2, network := net\<lparr>calls := calls net @ [SendTo bdl to]\<rparr>\<rparr>
          in (err, sync'))"

definition broadcast :: "env \<Rightarrow> message \<Rightarrow> synchronizer \<Rightarrow> synchronizer" where
  "broadcast e msg sync =
     (case prepareBundle e sync msg of
        None \<Rightarrow> sync
      | Some bdl \<Rightarrow>
          let bdl' = bdl\<lparr>Flags := SetFlag (Flags bdl) BundleFlagBroadcasted\<rparr>;
              net = network sync;
              ps = IncreaseSentBytesCounter (Type msg) (EncodedLen e bdl') None (peerSet sync)
          in sync\<lparr>peerSet := ps,
                  network := net\<lparr>calls := calls net @ [Broadcast bdl' (TopicID e (Type msg))]\<rparr>\<rparr>)"

text \<open>The Hello message that \<^verbatim>\<open>sayHello\<close> builds and signs before it sends it.\<close>

definition helloMessage :: "synchronizer \<Rightarrow> HelloMessage" where
  "helloMessage sync =
     (let services = (if NodeNetwork (config sync) then [] @ [Network] else []);
          msg = NewHelloMessage
                  (SelfID (network sync))
                  (Config.Moniker (config sync))
                  (LastBlockHeight (state sync))
                  (service_New services)
                  (LastBlockHash (state sync))
                  (Hash (Genesis (state sync)))
      in Sign (valKeys sync) msg)"

definition sayHello :: "env \<Rightarrow> peer_id \<Rightarrow> synchronizer \<Rightarrow> error option \<times> synchronizer" where
  "sayHello e to sync = sendTo e (Hello (helloMessage sync)) to sync"

subsection \<open>Incoming events\<close>

text \<open>The events of the transport. A stream event carries the bytes its reader
  yields.\<close>

datatype event =
    GossipMessage bytes peer_id peer_id
  | StreamMessage bytes peer_id
  | ConnectEvent peer_id string bool
  | DisconnectEvent peer_id

definition processConnectEvent :: "env \<Rightarrow> peer_id \<Rightarrow> string \<Rightarrow> bool \<Rightarrow> synchronizer \<Rightarrow> synchronizer" where
  "processConnectEvent e pid remoteAddress supportStream sync =
     (let sync1 = sync\<lparr>peerSet := UpdateStatus pid StatusCodeConnected (peerSet sync)\<rparr>;
          sync2 = sync1\<lparr>peerSet := UpdateAddress pid remoteAddress (peerSet sync1)\<rparr>
      in if supportStream then snd (sayHello e pid sync2) else sync2)"

definition processDisconnectEvent :: "peer_id \<Rightarrow> synchronizer \<Rightarrow> synchronizer" where
  "processDisconnectEvent pid sync =
     sync\<lparr>peerSet := UpdateStatus pid StatusCodeDisconnected (peerSet sync)\<rparr>"

definition processIncomingBundle ::
  "env \<Rightarrow> Bundle option \<Rightarrow> synchronizer \<Rightarrow> error option \<times> synchronizer" where
  "processIncomingBundle e bdl sync =
     (case bdl of
        None \<Rightarrow> (None, sync)
      | Some b \<Rightarrow>
          (case handlers e (Type (Message b)) of
             None \<Rightarrow> (Some (ErrInvalidMessage (Type (Message b))), sync)
           | Some h \<Rightarrow> ParseMessage h (Message b) (Initiator b) sync))"

text \<open>What the receive loop does after \<^verbatim>\<open>processIncomingBundle\<close> has returned
  \<open>err\<close> for the bundle \<open>bdl\<close>. An error never comes with a \<^verbatim>\<open>nil\<close> bundle.\<close>

definition countInvalidBundle :: "Bundle option \<Rightarrow> error option \<Rightarrow> synchronizer \<Rightarrow> synchronizer" where
  "countInvalidBundle bdl err sync =
     (case err of
        None \<Rightarrow> sync
      | Some er \<Rightarrow>
          (case bdl of
             None \<Rightarrow> sync
           | Some b \<Rightarrow> sync\<lparr>peerSet := IncreaseInvalidBundlesCounter (Initiator b) (peerSet sync)\<rparr>))"

text \<open>The body of the \<^verbatim>\<open>switch\<close> of the receive loop. Closing the reader of a
  stream event can only log a warning, so it has no part here.\<close>

fun processEvent :: "env \<Rightarrow> event \<Rightarrow> synchronizer \<Rightarrow> synchronizer" where
  "processEvent e (GossipMessage data source from) sync =
     (let (bdl, sync1) = OpenGossipBundle e data source from sync;
          (err, sync2) = processIncomingBundle e bdl sync1
      in countInvalidBundle bdl err sync2)"
| "processEvent e (StreamMessage reader source) sync =
     (let (bdl, sync1) = OpenStreamBundle e reader source sync;
          (err, sync2) = processIncomingBundle e bdl sync1
      in countInvalidBundle bdl err sync2)"
| "processEvent e (ConnectEvent pid remoteAddress supportStream) sync =
     processConnectEvent e pid remoteAddress supportStream sync"
| "processEvent e (DisconnectEvent pid) sync = processDisconnectEvent pid sync"

text \<open>
  The two loops, run on the events (or messages) that their channel delivers, in
  order. A loop returns when a receive on \<^verbatim>\<open>ctx.Done()\<close> can proceed; when the
  channel has nothing more to deliver and the context is not done, the loop waits in
  its \<^verbatim>\<open>select\<close>.
\<close>

datatype loop_end = Returned | Waiting

fun receiveLoop :: "env \<Rightarrow> event list \<Rightarrow> synchronizer \<Rightarrow> loop_end \<times> synchronizer" where
  "receiveLoop e [] sync = (if Done (ctx sync) then (Returned, sync) else (Waiting, sync))"
| "receiveLoop e (ev # evs) sync =
     (if Done (ctx sync) then (Returned, sync)
      else receiveLoop e evs (processEvent e ev sync))"

fun broadcastLoop :: "env \<Rightarrow> message list \<Rightarrow> synchronizer \<Rightarrow> loop_end \<times> synchronizer" where
  "broadcastLoop e [] sync = (if Done (ctx sync) then (Returned, sync) else (Waiting, sync))"
| "broadcastLoop e (msg # msgs) sync =
     (if Done (ctx sync) then (Returned, sync)
      else broadcastLoop e msgs (broadcast e msg sync))"

subsection \<open>Downloading: updateBlockchain and downloadBlocks\<close>

text \<open>The function that \<^verbatim>\<open>downloadBlocks\<close> passes to \<^verbatim>\<open>IteratePeers\<close>. The variable
  \<^verbatim>\<open>from\<close>, which the closure updates, is threaded with the synchronizer.\<close>

definition downloadBlocks_peer ::
  "env \<Rightarrow> bool \<Rightarrow> Peer \<Rightarrow> u32 \<times> synchronizer \<Rightarrow> u32 \<times> synchronizer" where
  "downloadBlocks_peer e onlyNodeNetwork p acc =
     (let (from, sync) = acc in
      if HasOpenSession (peerSet sync) (PeerID p) then (from, sync)
      else if \<not> IsKnownOrTrusty p then (from, sync)
      else if onlyNodeNetwork \<and> \<not> HasNetworkService p then
        (if onlyNodeNetwork
         then (from, sync\<lparr>network := (network sync)
                 \<lparr>calls := calls (network sync) @ [CloseConnection (PeerID p)]\<rparr>\<rparr>)
         else (from, sync))
      else
        let count = LatestBlockInterval e;
            (session, ps) = OpenSession (PeerID p) (Now e) (peerSet sync);
            sync1 = sync\<lparr>peerSet := ps\<rparr>;
            msg = BlocksRequest (SessionID session) (from + 1) count;
            (err, sync2) = sendTo e msg (PeerID p) sync1
        in case err of
             Some er \<Rightarrow> (from, sync2\<lparr>peerSet := CloseSession (SessionID session) (peerSet sync2)\<rparr>)
           | None \<Rightarrow> (from + count, sync2))"

text \<open>\<^verbatim>\<open>IteratePeers\<close> visits the peers of the registry in its order. The closure
  reads the id, the status and the services of a peer, which no step of the
  iteration changes.\<close>

definition downloadBlocks :: "env \<Rightarrow> u32 \<Rightarrow> bool \<Rightarrow> synchronizer \<Rightarrow> synchronizer" where
  "downloadBlocks e from onlyNodeNetwork sync =
     snd (fold (downloadBlocks_peer e onlyNodeNetwork) (peers (peerSet sync)) (from, sync))"

text \<open>The loop \<^verbatim>\<open>for sync.cache.HasBlockInCache(LastBlockHeight + 1)\<close>. It does not
  return when every height is cached, which is the value \<open>None\<close>.\<close>

partial_function (option) skipCachedBlocks :: "Cache \<Rightarrow> u32 \<Rightarrow> u32 option" where
  "skipCachedBlocks c LastBlockHeight' =
     (if HasBlockInCache c (LastBlockHeight' + 1)
      then skipCachedBlocks c (LastBlockHeight' + 1)
      else Some LastBlockHeight')"

definition updateBlockchain :: "env \<Rightarrow> synchronizer \<Rightarrow> synchronizer option" where
  "updateBlockchain e sync =
     (if HasAnyOpenSession (peerSet sync) then Some sync
      else
        let n = numOfBlocks e (Now e) (state sync) in
        if n \<le> 1 then Some sync
        else
          (case skipCachedBlocks (cache sync) (LastBlockHeight (state sync)) of
             None \<Rightarrow> None
           | Some h \<Rightarrow>
               if n > LatestBlockInterval e
               then Some (downloadBlocks e h True sync)
               else Some (downloadBlocks e h False sync)))"

subsection \<open>Committing: tryCommitBlocks\<close>

text \<open>The loop over the transactions of a block: a stripped public key is asked from
  the state and set; the first error ends the loop.\<close>

fun resolvePublicKeys :: "state \<Rightarrow> Tx list \<Rightarrow> error + Tx list" where
  "resolvePublicKeys st [] = Inr []"
| "resolvePublicKeys st (trx # trxs) =
     (if IsPublicKeyStriped trx then
        (case PublicKey st (Signer trx) of
           Inl err \<Rightarrow> Inl err
         | Inr pub \<Rightarrow>
             (case resolvePublicKeys st trxs of
                Inl err \<Rightarrow> Inl err
              | Inr rest \<Rightarrow> Inr (SetPublicKey pub trx # rest)))
      else
        (case resolvePublicKeys st trxs of
           Inl err \<Rightarrow> Inl err
         | Inr rest \<Rightarrow> Inr (trx # rest)))"

text \<open>One turn of the loop of \<^verbatim>\<open>tryCommitBlocks\<close> once the block and the
  certificate have been found: the keys, the two basic checks, \<^verbatim>\<open>CommitBlock\<close>.\<close>

definition commitBlockAndCert :: "env \<Rightarrow> state \<Rightarrow> block \<Rightarrow> certificate \<Rightarrow> error + state" where
  "commitBlockAndCert e st blk cert =
     (case resolvePublicKeys st (Transactions blk) of
        Inl err \<Rightarrow> Inl err
      | Inr trxs \<Rightarrow>
          let blk' = blk\<lparr>Transactions := trxs\<rparr> in
          (case BlockBasicCheck e blk' of
             Some err \<Rightarrow> Inl err
           | None \<Rightarrow>
               (case CertBasicCheck e cert of
                  Some err \<Rightarrow> Inl err
                | None \<Rightarrow> CommitBlock e st blk' cert)))"

text \<open>The outcome of one turn at a height: nothing to commit, an error, or the state
  after the commit.\<close>

datatype turn = NothingCached | Failed error | Committed state

definition commitTurn :: "env \<Rightarrow> synchronizer \<Rightarrow> u32 \<Rightarrow> turn" where
  "commitTurn e sync height =
     (case GetBlock (cache sync) height of
        None \<Rightarrow> NothingCached
      | Some blk \<Rightarrow>
          (case GetCertificate (cache sync) height of
             None \<Rightarrow> NothingCached
           | Some cert \<Rightarrow>
               (case commitBlockAndCert e (state sync) blk cert of
                  Inl err \<Rightarrow> Failed err
                | Inr st' \<Rightarrow> Committed st')))"

text \<open>The loop of \<^verbatim>\<open>tryCommitBlocks\<close>. Beside the error and the synchronizer it
  returns the heights at which \<^verbatim>\<open>CommitBlock\<close> succeeded, in the order of the
  calls. The loop does not return when every height is cached and every commit
  succeeds, which is the value \<open>None\<close>.\<close>

partial_function (option) tryCommitBlocks_loop ::
  "env \<Rightarrow> synchronizer \<Rightarrow> u32 \<Rightarrow> u32 list \<Rightarrow> (error option \<times> synchronizer \<times> u32 list) option" where
  "tryCommitBlocks_loop e sync height committed =
     (case commitTurn e sync height of
        NothingCached \<Rightarrow> Some (None, sync, committed)
      | Failed err \<Rightarrow> Some (Some err, sync, committed)
      | Committed st' \<Rightarrow>
          tryCommitBlocks_loop e (sync\<lparr>state := st'\<rparr>) (height + 1) (committed @ [height]))"

definition tryCommitBlocks ::
  "env \<Rightarrow> synchronizer \<Rightarrow> (error option \<times> synchronizer \<times> u32 list) option" where
  "tryCommitBlocks e sync =
     tryCommitBlocks_loop e sync (LastBlockHeight (state sync) + 1) []"

subsection \<open>Observations\<close>

text \<open>The invalid-bundles counter of a peer, zero for a peer the registry does not
  hold yet.\<close>

definition invalidBundlesOf :: "PeerSet \<Rightarrow> peer_id \<Rightarrow> int" where
  "invalidBundlesOf ps pid = (case GetPeer ps pid of None \<Rightarrow> 0 | Some p \<Rightarrow> InvalidBundles p)"

text \<open>What section 8 (6) asks of the flags of an outbound bundle, with the network
  flags as \<^verbatim>\<open>prepareBundle\<close> sets them: the flag of the chain for Mainnet and
  Testnet, none for Localnet.\<close>

definition outboundFlags :: "chain_type \<Rightarrow> bool \<Rightarrow> Bundle \<Rightarrow> bool" where
  "outboundFlags chain broadcasted bdl =
     (IsFlagSet (Flags bdl) BundleFlagCarrierLibP2P \<and>
      IsFlagSet (Flags bdl) BundleFlagNetworkMainnet = (chain = Mainnet) \<and>
      IsFlagSet (Flags bdl) BundleFlagNetworkTestnet = (chain = Testnet) \<and>
      IsFlagSet (Flags bdl) BundleFlagBroadcasted = broadcasted \<and>
      IsFlagSet (Flags bdl) BundleFlagHandshaking =
        (Type (Message bdl) = TypeHello \<or> Type (Message bdl) = TypeHelloAck))"

subsection \<open>Concrete instances\<close>

text \<open>A state whose tip is 5 and which holds every block up to its tip; the block at
  height \<open>h\<close> is encoded as the single byte \<open>h\<close>.\<close>

definition state5 :: state where
  "state5 =
     \<lparr>LastBlockHeight = 5, LastBlockHash = ''h5'',
      Genesis = \<lparr>Hash = ''g'', ChainType = Testnet\<rparr>,
      CommittedBlock = (\<lambda>h. if h \<le> 5 then Some \<lparr>Data = [ucast h]\<rparr> else None),
      PublicKey = (\<lambda>a. Inr a)\<rparr>"

text \<open>A configuration, a transport and a synchronizer built from them on the state
  above.\<close>

definition config0 :: Config where
  "config0 =
     \<lparr>Moniker = ''Alice'', SessionTimeout = 1, NodeNetwork = True,
      BlockPerMessage = 11, CacheSize = 1000\<rparr>"

definition network0 :: Network where
  "network0 = \<lparr>SelfID = ''self'', calls = []\<rparr>"

definition sync0 :: synchronizer where
  "sync0 =
     \<lparr>ctx = Background, config = config0, valKeys = [''key1'', ''key2''], state = state5,
      peerSet = NewPeerSet,
      cache = \<lparr>cachedBlocks = (\<lambda>h. None), cachedCerts = (\<lambda>h. None)\<rparr>,
      network = network0\<rparr>"

text \<open>An environment: the handlers of \<^verbatim>\<open>NewSynchronizer\<close>, which parse every message
  without error and always have something to share; a transport that accepts every
  send; a firewall that opens every gossip and stream to a bundle of a type that has
  no handler, initiated by the peer \<open>''mallory''\<close>.\<close>

definition strangeBundle :: Bundle where
  "strangeBundle =
     \<lparr>Flags = {BundleFlagCarrierLibP2P, BundleFlagNetworkTestnet},
      Initiator = ''mallory'', Message = OtherMessage (TypeOther 99)\<rparr>"

definition env0 :: env where
  "env0 =
     \<lparr>handlers = NewSynchronizer_handlers (\<lambda>t msg pid sync. (None, sync)) (\<lambda>msg sync. False),
      LatestBlockInterval = 23,
      Now = 1000,
      numOfBlocks = (\<lambda>now st. 100),
      EncodedLen = (\<lambda>bdl. 10),
      TopicID = (\<lambda>t. TopicGeneral),
      SendToError = (\<lambda>net bdl to. None),
      OpenGossipBundle = (\<lambda>data source from sync. (Some strangeBundle, sync)),
      OpenStreamBundle = (\<lambda>reader source sync. (Some strangeBundle, sync)),
      BlockBasicCheck = (\<lambda>blk. None),
      CertBasicCheck = (\<lambda>cert. None),
      CommitBlock = (\<lambda>st blk cert. Inr (st\<lparr>LastBlockHeight := LastBlockHeight st + 1\<rparr>))\<rparr>"

text \<open>The synchronizer above on a Localnet chain.\<close>

definition sync_localnet :: synchronizer where
  "sync_localnet = sync0\<lparr>state := state5\<lparr>Genesis := \<lparr>Hash = ''g'', ChainType = Localnet\<rparr>\<rparr>\<rparr>"

text \<open>A known peer that offers the Network service, a synchronizer whose registry
  holds that peer only, and an environment whose transport fails every send.\<close>

definition bob :: Peer where
  "bob = (NewPeer ''bob'')\<lparr>Status := StatusCodeKnown, Services := {Network}\<rparr>"

definition sync_bob :: synchronizer where
  "sync_bob = sync0\<lparr>peerSet := NewPeerSet\<lparr>peers := [bob]\<rparr>\<rparr>"

definition env_sendfail :: env where
  "env_sendfail = env0\<lparr>SendToError := (\<lambda>net bdl to. Some (ErrGeneric ''send error''))\<rparr>"

text \<open>Two blocks, each with one transaction whose public key is stripped, a cache
  that holds them with their certificates at the heights 6 and 7, and the
  synchronizer above with that cache.\<close>

definition block6 :: block where
  "block6 = \<lparr>Transactions = [\<lparr>TxPublicKey = None, Signer = ''alice''\<rparr>], Header = ''b6''\<rparr>"

definition block7 :: block where
  "block7 = \<lparr>Transactions = [\<lparr>TxPublicKey = None, Signer = ''carol''\<rparr>], Header = ''b7''\<rparr>"

definition cache67 :: Cache where
  "cache67 =
     \<lparr>cachedBlocks = (\<lambda>h. if h = 6 then Some block6 else if h = 7 then Some block7 else None),
      cachedCerts = (\<lambda>h. if h = 6 then Some ''c6'' else if h = 7 then Some ''c7'' else None)\<rparr>"

definition sync_cached :: synchronizer where
  "sync_cached = sync_bob\<lparr>cache := cache67\<rparr>"

text \<open>An environment in which the basic check of the certificate at height 7
  fails.\<close>

definition env_certfail :: env where
  "env_certfail =
     env0\<lparr>CertBasicCheck :=
       (\<lambda>cert. if cert = ''c7'' then Some (ErrGeneric ''bad certificate'') else None)\<rparr>"

text \<open>A synchronizer whose tip is \<open>2^32 - 2\<close> and whose cache holds a block and a
  certificate at the height \<open>2^32 - 1\<close> and at the height 0.\<close>

definition state_top :: state where
  "state_top = state5\<lparr>LastBlockHeight := 0xFFFFFFFE\<rparr>"

definition cache_top :: Cache where
  "cache_top =
     \<lparr>cachedBlocks = (\<lambda>h. if h = 0xFFFFFFFF then Some block6 else if h = 0 then Some block7 else None),
      cachedCerts = (\<lambda>h. if h = 0xFFFFFFFF then Some ''c6'' else if h = 0 then Some ''c7'' else None)\<rparr>"

definition sync_top :: synchronizer where
  "sync_top = sync0\<lparr>state := state_top, cache := cache_top\<rparr>"

section \<open>Properties\<close>

subsection \<open>prepareBlocks\<close>

lemma prepareBlocks_loop_done:
  "\<not> h < bound \<Longrightarrow> prepareBlocks_loop st h bound acc = Some acc"
  by (simp add: prepareBlocks_loop.simps [of st h])

lemma unat_succ_below: "(h::u32) < bound \<Longrightarrow> unat (h + 1) = Suc (unat h)"
proof -
  assume "h < bound"
  then have "unat h < unat bound" by (simp add: word_less_nat_alt)
  moreover have "unat bound < 2 ^ 32" using unsigned_less [of bound] by simp
  ultimately have "unat h + 1 < 2 ^ 32" by linarith
  then show ?thesis by (simp add: unat_word_ariths)
qed

text \<open>The loop from \<open>h\<close> to a bound \<open>n\<close> heights above it returns the encodings of
  the \<open>n\<close> blocks in order, or \<open>None\<close> when one of them is missing.\<close>

lemma prepareBlocks_loop_run:
  "unat h + n = unat bound \<Longrightarrow>
   prepareBlocks_loop st h bound acc =
     (if \<forall>i<n. CommittedBlock st (h + of_nat i) \<noteq> None
      then Some (acc @ map (\<lambda>i. Data (the (CommittedBlock st (h + of_nat i)))) [0..<n])
      else None)"
proof (induction n arbitrary: h acc)
  case 0
  then have "\<not> h < bound" by (simp add: word_less_nat_alt)
  then show ?case by (simp add: prepareBlocks_loop_done)
next
  case (Suc n)
  then have lt: "h < bound" by (simp add: word_less_nat_alt)
  then have su: "unat (h + 1) = Suc (unat h)" by (rule unat_succ_below)
  with Suc.prems have step: "unat (h + 1) + n = unat bound" by simp
  have shift: "\<And>i. h + 1 + of_nat i = h + of_nat (Suc i)" by simp
  show ?case
  proof (cases "CommittedBlock st h")
    case None
    then have "\<not> (\<forall>i<Suc n. CommittedBlock st (h + of_nat i) \<noteq> None)"
      by (auto intro: exI [of _ 0])
    with None lt show ?thesis by (simp add: prepareBlocks_loop.simps [of st h])
  next
    case (Some b)
    have all: "(\<forall>i<Suc n. CommittedBlock st (h + of_nat i) \<noteq> None) \<longleftrightarrow>
               (\<forall>i<n. CommittedBlock st (h + 1 + of_nat i) \<noteq> None)"
      using Some by (auto simp: shift less_Suc_eq_0_disj simp del: of_nat_Suc)
    have m: "map (\<lambda>i. Data (the (CommittedBlock st (h + of_nat i)))) [0..<Suc n] =
             Data b # map (\<lambda>i. Data (the (CommittedBlock st (h + 1 + of_nat i)))) [0..<n]"
      using Some by (simp add: upt_conv_Cons map_Suc_upt [symmetric] shift del: upt_Suc of_nat_Suc)
    have "prepareBlocks_loop st h bound acc = prepareBlocks_loop st (h + 1) bound (acc @ [Data b])"
      using lt Some by (simp add: prepareBlocks_loop.simps [of st h])
    also have "\<dots> = (if \<forall>i<n. CommittedBlock st (h + 1 + of_nat i) \<noteq> None
      then Some ((acc @ [Data b]) @ map (\<lambda>i. Data (the (CommittedBlock st (h + 1 + of_nat i)))) [0..<n])
      else None)"
      by (rule Suc.IH [OF step])
    finally show ?thesis by (simp only: all m) simp
  qed
qed

lemma unat_add_wrapped:
  fixes a b :: u32
  assumes "2 ^ 32 \<le> unat a + unat b"
  shows "unat (a + b) < unat a"
proof -
  have b: "unat b < 2 ^ 32" using unsigned_less [of b] by simp
  have a: "unat a < 2 ^ 32" using unsigned_less [of a] by simp
  have "unat (a + b) = (unat a + unat b) mod 2 ^ 32"
    by (simp add: unat_word_ariths)
  also have "\<dots> = unat a + unat b - 2 ^ 32"
    using assms a b by (simp add: mod_if)
  also have "\<dots> < unat a" using assms b by linarith
  finally show ?thesis .
qed

text \<open>
  When \<open>from + count\<close> stays below \<open>2^32\<close>, \<^verbatim>\<open>prepareBlocks\<close> does what section 4.5
  says of it: \<^verbatim>\<open>nil\<close> when \<open>from\<close> is above the tip or one of the requested blocks is
  missing, and otherwise the encodings of the blocks at \<open>from\<close>, \<open>from + 1\<close>, ..., in
  order, the count being cut at the tip.
\<close>

lemma prepareBlocks_no_overflow:
  assumes no: "unat from + unat count < 2 ^ 32"
  shows "prepareBlocks st from count =
     (if from > LastBlockHeight st then None
      else
        let n = (if unat from + unat count > unat (LastBlockHeight st)
                 then unat (LastBlockHeight st) - unat from + 1 else unat count)
        in if \<forall>i<n. CommittedBlock st (from + of_nat i) \<noteq> None
           then Some (map (\<lambda>i. Data (the (CommittedBlock st (from + of_nat i)))) [0..<n])
           else None)"
proof (cases "from > LastBlockHeight st")
  case True
  then show ?thesis by (simp add: prepareBlocks_def)
next
  case False
  define tip where "tip = LastBlockHeight st"
  from False have le: "unat from \<le> unat tip" by (simp add: tip_def word_le_nat_alt not_less)
  have sum: "unat (from + count) = unat from + unat count"
    using no by (simp add: unat_word_ariths)
  show ?thesis
  proof (cases "from + count > tip")
    case True
    then have gt: "unat tip < unat from + unat count"
      using sum by (simp add: word_less_nat_alt)
    then have tip1: "unat tip + 1 < 2 ^ 32" using no by linarith
    then have u1: "unat (tip + 1) = unat tip + 1" by (simp add: unat_word_ariths)
    have bound: "from + (tip - from + 1) = tip + 1" by simp
    have "unat from + (unat tip - unat from + 1) = unat (from + (tip - from + 1))"
      using le u1 by (simp only: bound)
    from prepareBlocks_loop_run [OF this, of st "[]"] True False gt
    show ?thesis by (simp add: prepareBlocks_def tip_def Let_def)
  next
    case F2: False
    then have ngt: "\<not> unat tip < unat from + unat count"
      using sum by (simp add: word_less_nat_alt)
    from prepareBlocks_loop_run [OF sum [symmetric], of st "[]"] F2 False ngt
    show ?thesis by (simp add: prepareBlocks_def tip_def Let_def)
  qed
qed

text \<open>
  C4, at an input where the sum \<open>from + count\<close> wraps around. The state holds every
  block up to its tip 5, and the request starts at height 1, below the tip, so
  the blocks at the heights 1 to 5 are due. \<^verbatim>\<open>prepareBlocks\<close> returns the empty list.
\<close>

theorem prepareBlocks_wrapped_request_empty:
  "LastBlockHeight state5 = 5 \<and>
   map (CommittedBlock state5) [1, 2, 3, 4, 5] =
     [Some \<lparr>Data = [1]\<rparr>, Some \<lparr>Data = [2]\<rparr>, Some \<lparr>Data = [3]\<rparr>,
      Some \<lparr>Data = [4]\<rparr>, Some \<lparr>Data = [5]\<rparr>] \<and>
   prepareBlocks state5 1 0xFFFFFFFF = Some [] \<and>
   prepareBlocks state5 1 5 = Some [[1], [2], [3], [4], [5]]"
  by (simp add: prepareBlocks_def state5_def word_less_nat_alt word_le_nat_alt
      prepareBlocks_loop.simps)

text \<open>
  C10: when \<open>from\<close> is at most the tip and the sum \<open>from + count\<close> of the two
  \<^verbatim>\<open>uint32\<close> values reaches \<open>2^32\<close>, the wrapped sum is not above the tip, so the
  count is not clamped; \<open>from\<close> is not below the wrapped sum, so the body of the
  loop never runs; and the result is the empty list, not \<^verbatim>\<open>nil\<close>.
\<close>

theorem prepareBlocks_wraparound:
  assumes "from \<le> LastBlockHeight st" and "2 ^ 32 \<le> unat from + unat count"
  shows "\<not> from + count > LastBlockHeight st \<and> \<not> from < from + count \<and>
         prepareBlocks st from count = Some []"
proof -
  have w: "from + count < from"
    using unat_add_wrapped [OF assms(2)] by (simp add: word_less_nat_alt)
  with assms(1) have noclamp: "\<not> from + count > LastBlockHeight st" by simp
  from w have noloop: "\<not> from < from + count" by simp
  from assms(1) have "\<not> from > LastBlockHeight st" by simp
  with noclamp noloop have "prepareBlocks st from count = Some []"
    by (simp add: prepareBlocks_def Let_def prepareBlocks_loop_done)
  with noclamp noloop show ?thesis by simp
qed

theorem prepareBlocks_wraparound_witness:
  "(3 :: u32) \<le> LastBlockHeight state5 \<and> (2 :: nat) ^ 32 \<le> unat (3 :: u32) + unat (0xFFFFFFFE :: u32) \<and>
   prepareBlocks state5 3 0xFFFFFFFE = Some []"
  using prepareBlocks_wraparound [of 3 state5 "0xFFFFFFFE"] by (simp add: state5_def)

subsection \<open>The peer registry\<close>

lemma find_map_same_key:
  assumes "\<And>p. PeerID (f p) = PeerID p"
  shows "find (\<lambda>p. PeerID p = pid) (map (\<lambda>p. if PeerID p = pid then f p else p) ps) =
         map_option f (find (\<lambda>p. PeerID p = pid) ps)"
  using assms by (induction ps) auto

lemma find_snoc_None:
  "find P xs = None \<Longrightarrow> find P (xs @ [y]) = (if P y then Some y else None)"
  by (induction xs) (auto split: if_splits)

lemma GetPeer_mutatePeer:
  assumes "\<And>p. PeerID (f p) = PeerID p"
  shows "GetPeer (mutatePeer pid f ps) pid =
         Some (f (case GetPeer ps pid of None \<Rightarrow> NewPeer pid | Some p \<Rightarrow> p))"
proof (cases "\<exists>p \<in> set (peers ps). PeerID p = pid")
  case True
  then obtain q where q: "find (\<lambda>p. PeerID p = pid) (peers ps) = Some q"
    by (meson find_None_iff not_Some_eq)
  with True show ?thesis
    by (simp add: GetPeer_def mutatePeer_def find_map_same_key [OF assms])
next
  case False
  then have n: "find (\<lambda>p. PeerID p = pid) (peers ps) = None"
    by (simp add: find_None_iff)
  have "PeerID (f (NewPeer pid)) = pid" by (simp add: assms NewPeer_def)
  with False n show ?thesis
    by (simp add: GetPeer_def mutatePeer_def find_snoc_None)
qed

lemma invalidBundlesOf_Increase:
  "invalidBundlesOf (IncreaseInvalidBundlesCounter pid ps) pid = invalidBundlesOf ps pid + 1"
  by (simp add: invalidBundlesOf_def IncreaseInvalidBundlesCounter_def GetPeer_mutatePeer
      NewPeer_def split: option.split)

subsection \<open>Incoming bundles\<close>

lemma processIncomingBundle_error_bundle:
  "processIncomingBundle e bdl sync = (Some err, sync') \<Longrightarrow> \<exists>b. bdl = Some b"
  by (cases bdl) (simp_all add: processIncomingBundle_def)

text \<open>
  C7: a bundle that is not \<^verbatim>\<open>nil\<close> and whose message type has no handler in the
  table makes \<^verbatim>\<open>processIncomingBundle\<close> return the error \<open>InvalidMessage\<close> and
  leave the synchronizer as it was, so that no handler has run. And when
  \<^verbatim>\<open>processIncomingBundle\<close> returns an error for the bundle that the firewall has
  opened from a gossip or a stream event, the receive loop calls
  \<^verbatim>\<open>IncreaseInvalidBundlesCounter\<close> for the initiator of the bundle, whose counter
  of invalid bundles is then one more than before.
\<close>

theorem unknown_type_rejected_and_counted:
  "(handlers e (Type (Message b)) = None \<longrightarrow>
      processIncomingBundle e (Some b) sync = (Some (ErrInvalidMessage (Type (Message b))), sync)) \<and>
   (OpenGossipBundle e data source from sync = (bdl, sync1) \<and>
    processIncomingBundle e bdl sync1 = (Some err, sync2) \<longrightarrow>
      (\<exists>b'. bdl = Some b' \<and>
         processEvent e (GossipMessage data source from) sync =
           sync2\<lparr>peerSet := IncreaseInvalidBundlesCounter (Initiator b') (peerSet sync2)\<rparr> \<and>
         invalidBundlesOf (peerSet (processEvent e (GossipMessage data source from) sync)) (Initiator b') =
           invalidBundlesOf (peerSet sync2) (Initiator b') + 1)) \<and>
   (OpenStreamBundle e reader source sync = (bdl, sync1) \<and>
    processIncomingBundle e bdl sync1 = (Some err, sync2) \<longrightarrow>
      (\<exists>b'. bdl = Some b' \<and>
         processEvent e (StreamMessage reader source) sync =
           sync2\<lparr>peerSet := IncreaseInvalidBundlesCounter (Initiator b') (peerSet sync2)\<rparr> \<and>
         invalidBundlesOf (peerSet (processEvent e (StreamMessage reader source) sync)) (Initiator b') =
           invalidBundlesOf (peerSet sync2) (Initiator b') + 1))"
proof (intro conjI impI)
  assume "handlers e (Type (Message b)) = None"
  then show "processIncomingBundle e (Some b) sync = (Some (ErrInvalidMessage (Type (Message b))), sync)"
    by (simp add: processIncomingBundle_def)
next
  assume a: "OpenGossipBundle e data source from sync = (bdl, sync1) \<and>
    processIncomingBundle e bdl sync1 = (Some err, sync2)"
  then obtain b' where b': "bdl = Some b'"
    using processIncomingBundle_error_bundle by blast
  with a have "processEvent e (GossipMessage data source from) sync =
           sync2\<lparr>peerSet := IncreaseInvalidBundlesCounter (Initiator b') (peerSet sync2)\<rparr>"
    by (simp add: countInvalidBundle_def)
  with b' show "\<exists>b'. bdl = Some b' \<and>
         processEvent e (GossipMessage data source from) sync =
           sync2\<lparr>peerSet := IncreaseInvalidBundlesCounter (Initiator b') (peerSet sync2)\<rparr> \<and>
         invalidBundlesOf (peerSet (processEvent e (GossipMessage data source from) sync)) (Initiator b') =
           invalidBundlesOf (peerSet sync2) (Initiator b') + 1"
    by (simp add: invalidBundlesOf_Increase)
next
  assume a: "OpenStreamBundle e reader source sync = (bdl, sync1) \<and>
    processIncomingBundle e bdl sync1 = (Some err, sync2)"
  then obtain b' where b': "bdl = Some b'"
    using processIncomingBundle_error_bundle by blast
  with a have "processEvent e (StreamMessage reader source) sync =
           sync2\<lparr>peerSet := IncreaseInvalidBundlesCounter (Initiator b') (peerSet sync2)\<rparr>"
    by (simp add: countInvalidBundle_def)
  with b' show "\<exists>b'. bdl = Some b' \<and>
         processEvent e (StreamMessage reader source) sync =
           sync2\<lparr>peerSet := IncreaseInvalidBundlesCounter (Initiator b') (peerSet sync2)\<rparr> \<and>
         invalidBundlesOf (peerSet (processEvent e (StreamMessage reader source) sync)) (Initiator b') =
           invalidBundlesOf (peerSet sync2) (Initiator b') + 1"
    by (simp add: invalidBundlesOf_Increase)
qed

lemma handlers_env0_strange: "handlers env0 (TypeOther 99) = None"
  by (simp add: env0_def NewSynchronizer_handlers_def registeredTypes_def)

theorem unknown_type_rejected_and_counted_witness:
  "handlers env0 (Type (Message strangeBundle)) = None \<and>
   processIncomingBundle env0 (Some strangeBundle) sync0 = (Some (ErrInvalidMessage (TypeOther 99)), sync0) \<and>
   invalidBundlesOf (peerSet sync0) ''mallory'' = 0 \<and>
   invalidBundlesOf (peerSet (processEvent env0 (GossipMessage [1, 2] ''relay'' ''mallory'') sync0)) ''mallory'' = 1 \<and>
   invalidBundlesOf (peerSet (processEvent env0 (StreamMessage [1, 2] ''relay'') sync0)) ''mallory'' = 1"
proof -
  have h: "handlers env0 (Type (Message strangeBundle)) = None"
    by (simp add: strangeBundle_def handlers_env0_strange)
  have g: "OpenGossipBundle env0 [1, 2] ''relay'' ''mallory'' sync0 = (Some strangeBundle, sync0)"
    by (simp add: env0_def)
  have s: "OpenStreamBundle env0 [1, 2] ''relay'' sync0 = (Some strangeBundle, sync0)"
    by (simp add: env0_def)
  have z: "invalidBundlesOf (peerSet sync0) ''mallory'' = 0"
    by (simp add: invalidBundlesOf_def sync0_def NewPeerSet_def GetPeer_def)
  have i: "Initiator strangeBundle = ''mallory''" "Type (Message strangeBundle) = TypeOther 99"
    by (simp_all add: strangeBundle_def)
  note t = unknown_type_rejected_and_counted [where e = env0 and b = strangeBundle and sync = sync0
      and data = "[1, 2]" and source = "''relay''" and ?from = "''mallory''"
      and bdl = "Some strangeBundle" and ?sync1.0 = sync0 and err = "ErrInvalidMessage (TypeOther 99)"
      and ?sync2.0 = sync0 and reader = "[1, 2]"]
  from t h have p: "processIncomingBundle env0 (Some strangeBundle) sync0 = (Some (ErrInvalidMessage (TypeOther 99)), sync0)"
    by (simp add: i)
  from t g p obtain b1 where b1: "Some strangeBundle = Some b1"
    "invalidBundlesOf (peerSet (processEvent env0 (GossipMessage [1, 2] ''relay'' ''mallory'') sync0)) (Initiator b1) =
       invalidBundlesOf (peerSet sync0) (Initiator b1) + 1"
    by blast
  from t s p obtain b2 where b2: "Some strangeBundle = Some b2"
    "invalidBundlesOf (peerSet (processEvent env0 (StreamMessage [1, 2] ''relay'') sync0)) (Initiator b2) =
       invalidBundlesOf (peerSet sync0) (Initiator b2) + 1"
    by blast
  from b1 have e1: "b1 = strangeBundle" by simp
  from b2 have e2: "b2 = strangeBundle" by simp
  from b1(2) b2(2) h p z show ?thesis
    unfolding e1 e2 i by simp
qed

subsection \<open>Outbound bundles\<close>

lemma prepareBundle_registered:
  assumes H: "handlers e = NewSynchronizer_handlers parse nts"
  shows "prepareBundle e sync msg =
    (if Type msg \<in> set registeredTypes \<and> \<not> nts msg sync
     then Some \<lparr>Flags =
            (case ChainType (Genesis (state sync)) of
               Mainnet \<Rightarrow> {BundleFlagNetworkMainnet}
             | Testnet \<Rightarrow> {BundleFlagNetworkTestnet}
             | Localnet \<Rightarrow> {}) \<union>
            {BundleFlagCarrierLibP2P} \<union>
            (if Type msg = TypeHello \<or> Type msg = TypeHelloAck then {BundleFlagHandshaking} else {}),
          Initiator = SelfID (network sync), Message = msg\<rparr>
     else None)"
  by (cases "ChainType (Genesis (state sync))")
     (auto simp: prepareBundle_def H NewSynchronizer_handlers_def newHandler_def
        handler_PrepareBundle_def NewBundle_def SetFlag_def Let_def)

lemma prepareBundle_flags:
  assumes H: "handlers e = NewSynchronizer_handlers parse nts"
    and b: "prepareBundle e sync msg = Some b"
  shows "outboundFlags (ChainType (Genesis (state sync))) False b"
    and "outboundFlags (ChainType (Genesis (state sync))) True
           (b\<lparr>Flags := SetFlag (Flags b) BundleFlagBroadcasted\<rparr>)"
    and "Message b = msg" and "Initiator b = SelfID (network sync)"
  using b unfolding prepareBundle_registered [OF H]
  by (cases "ChainType (Genesis (state sync))";
      auto simp: outboundFlags_def IsFlagSet_def SetFlag_def split: if_splits)+

lemma calls_sendTo:
  "calls (network (snd (sendTo e msg to sync))) =
   calls (network sync) @ (case prepareBundle e sync msg of None \<Rightarrow> [] | Some b \<Rightarrow> [SendTo b to])"
  by (simp add: sendTo_def Let_def split: option.split)

lemma calls_broadcast:
  "calls (network (broadcast e msg sync)) =
   calls (network sync) @
     (case prepareBundle e sync msg of
        None \<Rightarrow> []
      | Some b \<Rightarrow> [Broadcast (b\<lparr>Flags := SetFlag (Flags b) BundleFlagBroadcasted\<rparr>) (TopicID e (Type msg))])"
  by (simp add: broadcast_def Let_def split: option.split)

text \<open>
  C5, amended: for a synchronizer with the handlers of \<^verbatim>\<open>NewSynchronizer\<close>, every bundle
  that \<^verbatim>\<open>prepareBundle\<close> returns wraps the message, has the carrier flag set, has the
  Mainnet flag set exactly on a Mainnet chain and the Testnet flag set exactly on
  a Testnet chain (so neither on Localnet), has the Handshaking flag set exactly
  for Hello and HelloAck, and has the Broadcasted flag clear; \<^verbatim>\<open>sendTo\<close> hands
  that bundle to the transport as it is, and \<^verbatim>\<open>broadcast\<close> hands it over with the
  Broadcasted flag set and the other flags unchanged.
\<close>

theorem outbound_bundle_flags:
  assumes H: "handlers e = NewSynchronizer_handlers parse nts"
  shows "(\<forall>b. prepareBundle e sync msg = Some b \<longrightarrow>
            Message b = msg \<and>
            outboundFlags (ChainType (Genesis (state sync))) False b \<and>
            outboundFlags (ChainType (Genesis (state sync))) True
              (b\<lparr>Flags := SetFlag (Flags b) BundleFlagBroadcasted\<rparr>)) \<and>
         calls (network (snd (sendTo e msg to sync))) =
           calls (network sync) @
             (case prepareBundle e sync msg of None \<Rightarrow> [] | Some b \<Rightarrow> [SendTo b to]) \<and>
         calls (network (broadcast e msg sync)) =
           calls (network sync) @
             (case prepareBundle e sync msg of
                None \<Rightarrow> []
              | Some b \<Rightarrow> [Broadcast (b\<lparr>Flags := SetFlag (Flags b) BundleFlagBroadcasted\<rparr>)
                             (TopicID e (Type msg))])"
  using prepareBundle_flags [OF H] calls_sendTo calls_broadcast by blast

text \<open>
  C5 as stated fails on a Localnet chain: the bundle that \<^verbatim>\<open>prepareBundle\<close> returns
  for a QueryProposal message has the carrier flag only, and none of the two
  network flags.
\<close>

theorem localnet_bundle_has_no_network_flag:
  "ChainType (Genesis (state sync_localnet)) = Localnet \<and>
   prepareBundle env0 sync_localnet (OtherMessage TypeQueryProposal) =
     Some \<lparr>Flags = {BundleFlagCarrierLibP2P}, Initiator = ''self'',
           Message = OtherMessage TypeQueryProposal\<rparr> \<and>
   \<not> IsFlagSet {BundleFlagCarrierLibP2P} BundleFlagNetworkMainnet \<and>
   \<not> IsFlagSet {BundleFlagCarrierLibP2P} BundleFlagNetworkTestnet"
  by (simp add: prepareBundle_def env0_def sync_localnet_def sync0_def state5_def network0_def
      NewSynchronizer_handlers_def registeredTypes_def newHandler_def handler_PrepareBundle_def
      NewBundle_def SetFlag_def IsFlagSet_def)

lemma env0_handlers: "handlers env0 = NewSynchronizer_handlers (\<lambda>t msg pid sync. (None, sync)) (\<lambda>msg sync. False)"
  by (simp add: env0_def)

lemma pb0: "prepareBundle env0 sync0 (OtherMessage TypeQueryProposal) =
     Some \<lparr>Flags = {BundleFlagNetworkTestnet, BundleFlagCarrierLibP2P}, Initiator = ''self'',
           Message = OtherMessage TypeQueryProposal\<rparr>"
  by (auto simp: prepareBundle_registered [OF env0_handlers] registeredTypes_def sync0_def state5_def network0_def)

theorem outbound_bundle_flags_witness:
  "prepareBundle env0 sync0 (OtherMessage TypeQueryProposal) =
     Some \<lparr>Flags = {BundleFlagNetworkTestnet, BundleFlagCarrierLibP2P}, Initiator = ''self'',
           Message = OtherMessage TypeQueryProposal\<rparr> \<and>
   outboundFlags Testnet False
     \<lparr>Flags = {BundleFlagNetworkTestnet, BundleFlagCarrierLibP2P}, Initiator = ''self'',
      Message = OtherMessage TypeQueryProposal\<rparr> \<and>
   calls (network (snd (sendTo env0 (OtherMessage TypeQueryProposal) ''bob'' sync0))) =
     [SendTo \<lparr>Flags = {BundleFlagNetworkTestnet, BundleFlagCarrierLibP2P}, Initiator = ''self'',
             Message = OtherMessage TypeQueryProposal\<rparr> ''bob''] \<and>
   calls (network (broadcast env0 (OtherMessage TypeQueryProposal) sync0)) =
     [Broadcast \<lparr>Flags = {BundleFlagBroadcasted, BundleFlagNetworkTestnet, BundleFlagCarrierLibP2P},
                Initiator = ''self'', Message = OtherMessage TypeQueryProposal\<rparr> TopicGeneral]"
proof -
  have c: "ChainType (Genesis (state sync0)) = Testnet" "calls (network sync0) = []"
    by (simp_all add: sync0_def state5_def network0_def)
  have t: "TopicID env0 TypeQueryProposal = TopicGeneral" by (simp add: env0_def)
  from outbound_bundle_flags [OF env0_handlers, of sync0 "OtherMessage TypeQueryProposal" "''bob''"]
  show ?thesis
    unfolding pb0 c by (simp add: SetFlag_def t)
qed

subsection \<open>Connect events and Hello\<close>

lemma GetPeer_totalSentBytes: "GetPeer (ps\<lparr>totalSentBytes := x\<rparr>) pid = GetPeer ps pid"
  by (simp add: GetPeer_def)

lemma GetPeer_UpdateStatus:
  "GetPeer (UpdateStatus pid st ps) pid =
   Some ((case GetPeer ps pid of None \<Rightarrow> NewPeer pid | Some p \<Rightarrow> p)\<lparr>Status := st\<rparr>)"
  by (simp add: UpdateStatus_def GetPeer_mutatePeer)

lemma GetPeer_UpdateAddress:
  "GetPeer (UpdateAddress pid addr ps) pid =
   Some ((case GetPeer ps pid of None \<Rightarrow> NewPeer pid | Some p \<Rightarrow> p)\<lparr>Address := addr\<rparr>)"
  by (simp add: UpdateAddress_def GetPeer_mutatePeer)

lemma GetPeer_UpdateLastSent:
  "GetPeer (UpdateLastSent pid now ps) pid =
   Some ((case GetPeer ps pid of None \<Rightarrow> NewPeer pid | Some p \<Rightarrow> p)\<lparr>LastSent := now\<rparr>)"
  by (simp add: UpdateLastSent_def GetPeer_mutatePeer)

lemma GetPeer_IncreaseSentBytesCounter:
  "GetPeer (IncreaseSentBytesCounter t c (Some pid) ps) pid =
   Some (let p = (case GetPeer ps pid of None \<Rightarrow> NewPeer pid | Some p \<Rightarrow> p)
         in p\<lparr>SentBytes := (SentBytes p)(t := SentBytes p t + c)\<rparr>)"
  by (simp add: IncreaseSentBytesCounter_def GetPeer_mutatePeer GetPeer_totalSentBytes Let_def)

lemma helloMessage_peerSet: "helloMessage (sync\<lparr>peerSet := ps\<rparr>) = helloMessage sync"
  by (simp add: helloMessage_def)

text \<open>
  C8: for a synchronizer with the handlers of \<^verbatim>\<open>NewSynchronizer\<close> whose Hello handler
  prepares a bundle. A Connect event without stream support sets the status of the
  peer to Connected and records the address, and changes nothing else: the transport
  gets no call. A Connect event with stream support hands one bundle to the
  transport, for that peer, whose message is the Hello of \<^verbatim>\<open>sayHello\<close>; the peer
  has the same status and address as without stream support, and differs only in
  its time of last sending and its counter of sent bytes.
\<close>

theorem connect_event:
  assumes H: "handlers e = NewSynchronizer_handlers parse nts"
    and N: "\<not> nts (Hello (helloMessage sync))
              (sync\<lparr>peerSet := UpdateAddress pid addr (UpdateStatus pid StatusCodeConnected (peerSet sync))\<rparr>)"
  shows "\<exists>p b.
     processConnectEvent e pid addr False sync =
       sync\<lparr>peerSet := UpdateAddress pid addr (UpdateStatus pid StatusCodeConnected (peerSet sync))\<rparr> \<and>
     calls (network (processConnectEvent e pid addr False sync)) = calls (network sync) \<and>
     GetPeer (peerSet (processConnectEvent e pid addr False sync)) pid = Some p \<and>
     Status p = StatusCodeConnected \<and> Address p = addr \<and>
     calls (network (processConnectEvent e pid addr True sync)) = calls (network sync) @ [SendTo b pid] \<and>
     Message b = Hello (helloMessage sync) \<and>
     GetPeer (peerSet (processConnectEvent e pid addr True sync)) pid =
       Some (p\<lparr>LastSent := Now e,
               SentBytes := (SentBytes p)(TypeHello := SentBytes p TypeHello + EncodedLen e b)\<rparr>)"
proof -
  define ps2 where "ps2 = UpdateAddress pid addr (UpdateStatus pid StatusCodeConnected (peerSet sync))"
  define sync2 where "sync2 = sync\<lparr>peerSet := ps2\<rparr>"
  define p0 where "p0 = (case GetPeer (peerSet sync) pid of None \<Rightarrow> NewPeer pid | Some p \<Rightarrow> p)"
  define p where "p = p0\<lparr>Status := StatusCodeConnected, Address := addr\<rparr>"
  have f: "processConnectEvent e pid addr False sync = sync2"
    by (simp add: processConnectEvent_def sync2_def ps2_def)
  have gp: "GetPeer ps2 pid = Some p"
    by (simp add: ps2_def p_def p0_def GetPeer_UpdateAddress GetPeer_UpdateStatus)
  have hm: "helloMessage sync2 = helloMessage sync"
    by (simp add: sync2_def helloMessage_peerSet)
  have "Type (Hello (helloMessage sync)) \<in> set registeredTypes"
    by (simp add: registeredTypes_def)
  with N obtain b where b: "prepareBundle e sync2 (Hello (helloMessage sync)) = Some b"
    by (simp add: prepareBundle_registered [OF H] sync2_def ps2_def)
  then have mb: "Message b = Hello (helloMessage sync)"
    using prepareBundle_flags(3) [OF H] by blast
  have t: "processConnectEvent e pid addr True sync =
      sync2\<lparr>peerSet := IncreaseSentBytesCounter TypeHello (EncodedLen e b) (Some pid)
                           (UpdateLastSent pid (Now e) ps2),
             network := (network sync2)\<lparr>calls := calls (network sync2) @ [SendTo b pid]\<rparr>\<rparr>"
    using b hm by (simp add: processConnectEvent_def sayHello_def sendTo_def Let_def
        sync2_def [symmetric] ps2_def [symmetric])
       (simp add: sync2_def)
  have c: "calls (network (processConnectEvent e pid addr True sync)) = calls (network sync) @ [SendTo b pid]"
    by (simp add: t sync2_def)
  have g: "GetPeer (peerSet (processConnectEvent e pid addr True sync)) pid =
       Some (p\<lparr>LastSent := Now e,
               SentBytes := (SentBytes p)(TypeHello := SentBytes p TypeHello + EncodedLen e b)\<rparr>)"
    by (simp add: t GetPeer_IncreaseSentBytesCounter GetPeer_UpdateLastSent gp Let_def)
  have "Status p = StatusCodeConnected" "Address p = addr"
    by (simp_all add: p_def)
  with f gp mb c g show ?thesis
    unfolding sync2_def ps2_def by (intro exI [of _ p] exI [of _ b]) simp
qed


theorem connect_event_witness:
  "calls (network (processConnectEvent env0 ''bob'' ''address_1'' False sync0)) = [] \<and>
   GetPeer (peerSet (processConnectEvent env0 ''bob'' ''address_1'' False sync0)) ''bob'' \<noteq> None \<and>
   length (calls (network (processConnectEvent env0 ''bob'' ''address_1'' True sync0))) = 1 \<and>
   GetPeer (peerSet (processConnectEvent env0 ''bob'' ''address_1'' True sync0)) ''bob'' \<noteq> None"
proof -
  have c: "calls (network sync0) = []"
    by (simp add: sync0_def network0_def)
  from connect_event [OF env0_handlers, where sync = sync0 and pid = "''bob''" and addr = "''address_1''"]
  show ?thesis
    unfolding c by auto
qed

text \<open>
  C9: the Hello message of \<^verbatim>\<open>sayHello\<close> carries the id of the node, the last block
  height, the last block hash and the genesis hash of the state, and the moniker of
  the configuration; its services contain Network exactly when \<^verbatim>\<open>NodeNetwork\<close> is
  set; it is signed with all the validator keys of the synchronizer. Every call that
  \<^verbatim>\<open>sayHello\<close> makes on the transport sends a bundle with that message to the peer
  \<open>to\<close>, and there is one such call when the Hello handler prepares a bundle.
\<close>

theorem hello_message_contents:
  assumes H: "handlers e = NewSynchronizer_handlers parse nts"
  shows "HelloPeerID (helloMessage sync) = SelfID (network sync) \<and>
     HelloHeight (helloMessage sync) = LastBlockHeight (state sync) \<and>
     HelloBlockHash (helloMessage sync) = LastBlockHash (state sync) \<and>
     HelloGenesisHash (helloMessage sync) = Hash (Genesis (state sync)) \<and>
     HelloMoniker (helloMessage sync) = Config.Moniker (config sync) \<and>
     IsNetwork (HelloServices (helloMessage sync)) = NodeNetwork (config sync) \<and>
     SignedBy (helloMessage sync) = valKeys sync \<and>
     (\<exists>bs. calls (network (snd (sayHello e to sync))) = calls (network sync) @ bs \<and>
        (\<forall>c \<in> set bs. \<exists>b. c = SendTo b to \<and> Message b = Hello (helloMessage sync)) \<and>
        (\<not> nts (Hello (helloMessage sync)) sync \<longrightarrow> length bs = 1))"
proof -
  have fields: "HelloPeerID (helloMessage sync) = SelfID (network sync) \<and>
     HelloHeight (helloMessage sync) = LastBlockHeight (state sync) \<and>
     HelloBlockHash (helloMessage sync) = LastBlockHash (state sync) \<and>
     HelloGenesisHash (helloMessage sync) = Hash (Genesis (state sync)) \<and>
     HelloMoniker (helloMessage sync) = Config.Moniker (config sync) \<and>
     IsNetwork (HelloServices (helloMessage sync)) = NodeNetwork (config sync) \<and>
     SignedBy (helloMessage sync) = valKeys sync"
    by (simp add: helloMessage_def NewHelloMessage_def Sign_def service_New_def IsNetwork_def)
  define m where "m = Hello (helloMessage sync)"
  define bs where "bs = (case prepareBundle e sync m of None \<Rightarrow> [] | Some b \<Rightarrow> [SendTo b to])"
  have c: "calls (network (snd (sayHello e to sync))) = calls (network sync) @ bs"
    by (simp add: sayHello_def calls_sendTo bs_def m_def)
  have a: "\<forall>c \<in> set bs. \<exists>b. c = SendTo b to \<and> Message b = m"
    using prepareBundle_flags(3) [OF H, of sync m]
    by (auto simp: bs_def split: option.splits)
  have "Type m \<in> set registeredTypes" by (simp add: m_def registeredTypes_def)
  then have l: "\<not> nts m sync \<longrightarrow> length bs = 1"
    by (simp add: bs_def prepareBundle_registered [OF H])
  from c a l have "\<exists>bs. calls (network (snd (sayHello e to sync))) = calls (network sync) @ bs \<and>
        (\<forall>c \<in> set bs. \<exists>b. c = SendTo b to \<and> Message b = Hello (helloMessage sync)) \<and>
        (\<not> nts (Hello (helloMessage sync)) sync \<longrightarrow> length bs = 1)"
    unfolding m_def by blast
  with fields show ?thesis by blast
qed

theorem hello_message_contents_witness:
  "HelloPeerID (helloMessage sync0) = ''self'' \<and>
   HelloHeight (helloMessage sync0) = 5 \<and>
   HelloBlockHash (helloMessage sync0) = ''h5'' \<and>
   HelloGenesisHash (helloMessage sync0) = ''g'' \<and>
   HelloMoniker (helloMessage sync0) = ''Alice'' \<and>
   IsNetwork (HelloServices (helloMessage sync0)) \<and>
   SignedBy (helloMessage sync0) = [''key1'', ''key2''] \<and>
   length (calls (network (snd (sayHello env0 ''bob'' sync0)))) = 1"
proof -
  have c: "calls (network sync0) = []" "SelfID (network sync0) = ''self''"
    "LastBlockHeight (state sync0) = 5" "LastBlockHash (state sync0) = ''h5''"
    "Hash (Genesis (state sync0)) = ''g''" "Config.Moniker (config sync0) = ''Alice''"
    "NodeNetwork (config sync0)" "valKeys sync0 = [''key1'', ''key2'']"
    by (simp_all add: sync0_def network0_def state5_def config0_def)
  from hello_message_contents [OF env0_handlers, of sync0 "''bob''"] c show ?thesis
    by auto
qed

subsection \<open>Stop and the two loops\<close>

text \<open>A synchronizer that \<^verbatim>\<open>NewSynchronizer\<close> builds has the background context, and
  \<^verbatim>\<open>Stop\<close> leaves it so: after \<^verbatim>\<open>Stop\<close> each loop still takes the next event or
  message of its channel.\<close>

lemma NewSynchronizer_context:
  "NewSynchronizer conf keys st net = Inr sync \<Longrightarrow> ctx sync = Background"
  by (auto simp: NewSynchronizer_def split: sum.splits)

lemma receiveLoop_after_Stop:
  "ctx sync = Background \<Longrightarrow>
   receiveLoop e (ev # evs) (Stop sync) = receiveLoop e evs (processEvent e ev sync)"
  by (simp add: Stop_def)

lemma broadcastLoop_after_Stop:
  "ctx sync = Background \<Longrightarrow>
   broadcastLoop e (msg # msgs) (Stop sync) = broadcastLoop e msgs (broadcast e msg sync)"
  by (simp add: Stop_def)

text \<open>
  C6, on the synchronizer that \<^verbatim>\<open>NewSynchronizer\<close> builds: after \<^verbatim>\<open>Stop\<close> the
  context is not done; the receive loop still processes a Connect event that
  arrives (the peer becomes Connected) and then waits in its \<^verbatim>\<open>select\<close>; the
  broadcast loop still broadcasts a message that arrives and then waits. Neither
  loop returns.
\<close>

theorem loops_run_on_after_Stop:
  "NewSynchronizer config0 [''key1'', ''key2''] state5 network0 = Inr sync0 \<and>
   Done (ctx (Stop sync0)) = False \<and>
   fst (receiveLoop env0 [ConnectEvent ''bob'' ''address_1'' False] (Stop sync0)) = Waiting \<and>
   map Status (peers (peerSet (snd (receiveLoop env0 [ConnectEvent ''bob'' ''address_1'' False] (Stop sync0)))))
     = [StatusCodeConnected] \<and>
   fst (broadcastLoop env0 [OtherMessage TypeVote] (Stop sync0)) = Waiting \<and>
   calls (network (snd (broadcastLoop env0 [OtherMessage TypeVote] (Stop sync0)))) =
     [Broadcast \<lparr>Flags = {BundleFlagBroadcasted, BundleFlagCarrierLibP2P, BundleFlagNetworkTestnet},
                Initiator = ''self'', Message = OtherMessage TypeVote\<rparr> TopicGeneral]"
proof -
  have n: "NewSynchronizer config0 [''key1'', ''key2''] state5 network0 = Inr sync0"
    by (simp add: NewSynchronizer_def NewCache_def config0_def sync0_def)
  have c: "ctx sync0 = Background" by (simp add: sync0_def)
  have p: "processConnectEvent env0 ''bob'' ''address_1'' False sync0 =
      sync0\<lparr>peerSet := UpdateAddress ''bob'' ''address_1''
                (UpdateStatus ''bob'' StatusCodeConnected (peerSet sync0))\<rparr>"
    by (simp add: processConnectEvent_def)
  have ps: "map Status (peers (UpdateAddress ''bob'' ''address_1''
                (UpdateStatus ''bob'' StatusCodeConnected (peerSet sync0)))) = [StatusCodeConnected]"
    by (simp add: UpdateAddress_def UpdateStatus_def mutatePeer_def sync0_def NewPeerSet_def NewPeer_def)
  have pb: "prepareBundle env0 sync0 (OtherMessage TypeVote) =
      Some \<lparr>Flags = {BundleFlagCarrierLibP2P, BundleFlagNetworkTestnet},
            Initiator = ''self'', Message = OtherMessage TypeVote\<rparr>"
    by (auto simp: prepareBundle_registered [OF env0_handlers] registeredTypes_def
        sync0_def state5_def network0_def)
  have cs: "calls (network sync0) = []" by (simp add: sync0_def network0_def)
  have tp: "TopicID env0 TypeVote = TopicGeneral" by (simp add: env0_def)
  have b: "calls (network (broadcast env0 (OtherMessage TypeVote) sync0)) =
     [Broadcast \<lparr>Flags = {BundleFlagBroadcasted, BundleFlagCarrierLibP2P, BundleFlagNetworkTestnet},
                Initiator = ''self'', Message = OtherMessage TypeVote\<rparr> TopicGeneral]"
    by (auto simp: calls_broadcast pb tp SetFlag_def cs)
  have cb: "ctx (broadcast env0 (OtherMessage TypeVote) sync0) = Background"
    by (simp add: broadcast_def c Let_def split: option.split)
  show ?thesis
    using n c p ps b cb by (simp add: Stop_def)
qed

subsection \<open>downloadBlocks\<close>

lemma sessions_mutatePeer: "sessions (mutatePeer pid f ps) = sessions ps"
  by (simp add: mutatePeer_def)

lemma sessions_sendTo:
  "sessions (peerSet (snd (sendTo e msg to sync))) = sessions (peerSet sync)"
  by (simp add: sendTo_def Let_def UpdateLastSent_def IncreaseSentBytesCounter_def
      sessions_mutatePeer split: option.split)

lemma HasOpenSession_sendTo:
  "HasOpenSession (peerSet (snd (sendTo e msg to sync))) pid = HasOpenSession (peerSet sync) pid"
  by (simp add: HasOpenSession_def sessions_sendTo)

lemma HasOpenSession_CloseSession:
  "sessions ps' = sessions ps @ [newSession sid pid now] \<Longrightarrow> \<not> HasOpenSession ps pid \<Longrightarrow>
   \<not> HasOpenSession (CloseSession sid ps') pid"
  by (auto simp: HasOpenSession_def CloseSession_def newSession_def)

lemma downloadBlocks_peer_eligible:
  assumes "\<not> HasOpenSession (peerSet sync) (PeerID p)" and "IsKnownOrTrusty p"
    and "onlyNodeNetwork \<longrightarrow> HasNetworkService p"
  shows "downloadBlocks_peer e onlyNodeNetwork p (from, sync) =
    (let sid = nextSessionID (peerSet sync);
         sync1 = sync\<lparr>peerSet := snd (OpenSession (PeerID p) (Now e) (peerSet sync))\<rparr>;
         sent = sendTo e (BlocksRequest sid (from + 1) (LatestBlockInterval e)) (PeerID p) sync1
     in case fst sent of
          Some er \<Rightarrow> (from, (snd sent)\<lparr>peerSet := CloseSession sid (peerSet (snd sent))\<rparr>)
        | None \<Rightarrow> (from + LatestBlockInterval e, snd sent))"
  using assms
  by (auto simp: downloadBlocks_peer_def Let_def OpenSession_def newSession_def
      split: prod.split option.split)

text \<open>
  C2: what \<^verbatim>\<open>downloadBlocks\<close> does at each peer that \<^verbatim>\<open>IteratePeers\<close> hands it, for
  a synchronizer with the handlers of \<^verbatim>\<open>NewSynchronizer\<close>. A peer that has an open
  session, or that is neither Known nor Trusty, is skipped: nothing changes. When
  \<open>onlyNodeNetwork\<close> is set, a peer without the Network service is skipped and
  the connection to it is closed. For every other peer a session is opened and
  \<^verbatim>\<open>sendTo\<close> is called with \<open>BlocksRequest\<close> of the id of that session, the height
  \<open>from + 1\<close> and the count \<^verbatim>\<open>LatestBlockInterval\<close>; the bundle handed to the
  transport carries that message. When \<^verbatim>\<open>sendTo\<close> returns no error, \<open>from\<close> has
  advanced by \<^verbatim>\<open>LatestBlockInterval\<close> and the session is open for the peer; when it
  returns an error, \<open>from\<close> is unchanged and no session is open for the peer.
\<close>

theorem downloadBlocks_peer_cases:
  fixes e :: env and p :: Peer and sync :: synchronizer and "from" :: u32 and onlyNodeNetwork :: bool
  defines "pid \<equiv> PeerID p"
    and "res \<equiv> downloadBlocks_peer e onlyNodeNetwork p (from, sync)"
    and "sid \<equiv> nextSessionID (peerSet sync)"
    and "sync1 \<equiv> sync\<lparr>peerSet := snd (OpenSession (PeerID p) (Now e) (peerSet sync))\<rparr>"
  defines "msg \<equiv> BlocksRequest sid (from + 1) (LatestBlockInterval e)"
  defines "sent \<equiv> sendTo e msg pid sync1"
  assumes H: "handlers e = NewSynchronizer_handlers parse nts"
  shows "(HasOpenSession (peerSet sync) pid \<or> \<not> IsKnownOrTrusty p \<longrightarrow> res = (from, sync)) \<and>
    (\<not> HasOpenSession (peerSet sync) pid \<and> IsKnownOrTrusty p \<and>
       onlyNodeNetwork \<and> \<not> HasNetworkService p \<longrightarrow>
       res = (from, sync\<lparr>network := (network sync)
                \<lparr>calls := calls (network sync) @ [CloseConnection pid]\<rparr>\<rparr>)) \<and>
    (\<not> HasOpenSession (peerSet sync) pid \<and> IsKnownOrTrusty p \<and>
       (onlyNodeNetwork \<longrightarrow> HasNetworkService p) \<longrightarrow>
       calls (network (snd res)) =
         calls (network sync) @
           (case prepareBundle e sync1 msg of None \<Rightarrow> [] | Some b \<Rightarrow> [SendTo b pid]) \<and>
       (\<forall>b. prepareBundle e sync1 msg = Some b \<longrightarrow> Message b = msg) \<and>
       (fst sent = None \<longrightarrow>
          fst res = from + LatestBlockInterval e \<and> snd res = snd sent \<and>
          (\<exists>s \<in> set (sessions (peerSet (snd res))). SessionID s = sid \<and> SessionPeerID s = pid)) \<and>
       (fst sent \<noteq> None \<longrightarrow>
          fst res = from \<and> \<not> HasOpenSession (peerSet (snd res)) pid))"
proof (intro conjI impI)
  assume "HasOpenSession (peerSet sync) pid \<or> \<not> IsKnownOrTrusty p"
  then show "res = (from, sync)"
    by (auto simp: res_def pid_def downloadBlocks_peer_def)
next
  assume "\<not> HasOpenSession (peerSet sync) pid \<and> IsKnownOrTrusty p \<and>
       onlyNodeNetwork \<and> \<not> HasNetworkService p"
  then show "res = (from, sync\<lparr>network := (network sync)
                \<lparr>calls := calls (network sync) @ [CloseConnection pid]\<rparr>\<rparr>)"
    by (simp add: res_def pid_def downloadBlocks_peer_def)
next
  assume a: "\<not> HasOpenSession (peerSet sync) pid \<and> IsKnownOrTrusty p \<and>
       (onlyNodeNetwork \<longrightarrow> HasNetworkService p)"
  have s1: "sessions (peerSet sync1) = sessions (peerSet sync) @ [newSession sid pid (Now e)]"
    by (simp add: sync1_def OpenSession_def Let_def sid_def pid_def)
  have r: "res = (case fst sent of
             Some er \<Rightarrow> (from, (snd sent)\<lparr>peerSet := CloseSession sid (peerSet (snd sent))\<rparr>)
           | None \<Rightarrow> (from + LatestBlockInterval e, snd sent))"
    unfolding res_def sent_def msg_def sync1_def sid_def pid_def
    using a downloadBlocks_peer_eligible [of sync p onlyNodeNetwork e "from"]
    by (simp add: pid_def Let_def)
  have cs: "calls (network (snd sent)) =
         calls (network sync) @
           (case prepareBundle e sync1 msg of None \<Rightarrow> [] | Some b \<Rightarrow> [SendTo b pid])"
    by (simp add: sent_def calls_sendTo) (simp add: sync1_def)
  {
    show "calls (network (snd res)) =
         calls (network sync) @
           (case prepareBundle e sync1 msg of None \<Rightarrow> [] | Some b \<Rightarrow> [SendTo b pid])"
      using cs by (simp add: r split: option.split)
  next
    show "\<forall>b. prepareBundle e sync1 msg = Some b \<longrightarrow> Message b = msg"
      using prepareBundle_flags(3) [OF H] by blast
  next
    assume n: "fst sent = None"
    then show "fst res = from + LatestBlockInterval e" by (simp add: r)
    from n show "snd res = snd sent" by (simp add: r)
    have "sessions (peerSet (snd sent)) = sessions (peerSet sync1)"
      by (simp add: sent_def sessions_sendTo)
    with n s1 show "\<exists>s \<in> set (sessions (peerSet (snd res))). SessionID s = sid \<and> SessionPeerID s = pid"
      by (simp add: r newSession_def)
  next
    assume n: "fst sent \<noteq> None"
    then show "fst res = from" by (auto simp: r)
    have "sessions (peerSet (snd sent)) = sessions (peerSet sync) @ [newSession sid pid (Now e)]"
      by (simp add: sent_def sessions_sendTo s1)
    from HasOpenSession_CloseSession [OF this] a
    have "\<not> HasOpenSession (CloseSession sid (peerSet (snd sent))) pid" by simp
    with n show "\<not> HasOpenSession (peerSet (snd res)) pid" by (auto simp: r)
  }
qed


lemma env_sendfail_handlers:
  "handlers env_sendfail = NewSynchronizer_handlers (\<lambda>t msg pid sync. (None, sync)) (\<lambda>msg sync. False)"
  by (simp add: env_sendfail_def env0_handlers)

theorem downloadBlocks_peer_cases_witness:
  "fst (downloadBlocks_peer env0 True bob (5, sync_bob)) = 28 \<and>
   HasOpenSession (peerSet (snd (downloadBlocks_peer env0 True bob (5, sync_bob)))) ''bob'' \<and>
   fst (downloadBlocks_peer env_sendfail True bob (5, sync_bob)) = 5 \<and>
   \<not> HasOpenSession (peerSet (snd (downloadBlocks_peer env_sendfail True bob (5, sync_bob)))) ''bob''"
proof -
  have pid: "PeerID bob = ''bob''" by (simp add: bob_def NewPeer_def)
  have elig: "\<not> HasOpenSession (peerSet sync_bob) (PeerID bob)" "IsKnownOrTrusty bob"
    "HasNetworkService bob"
    by (simp_all add: HasOpenSession_def sync_bob_def NewPeerSet_def bob_def IsKnownOrTrusty_def
        HasNetworkService_def IsNetwork_def)
  have ok: "\<And>msg to sync. fst (sendTo env0 msg to sync) = None"
    by (simp add: sendTo_def Let_def env0_def split: option.split)
  have "\<And>sync from. prepareBundle env_sendfail sync (BlocksRequest 0 from 23) \<noteq> None"
    by (simp add: prepareBundle_registered [OF env_sendfail_handlers] registeredTypes_def)
  then have fail: "\<And>sync from. fst (sendTo env_sendfail (BlocksRequest 0 from 23) ''bob'' sync) \<noteq> None"
    by (auto simp: sendTo_def Let_def env_sendfail_def split: option.split)
  have lbi: "LatestBlockInterval env0 = 23" "LatestBlockInterval env_sendfail = 23"
    by (simp_all add: env_sendfail_def env0_def)
  have sid: "nextSessionID (peerSet sync_bob) = 0"
    by (simp add: sync_bob_def NewPeerSet_def)
  note a = downloadBlocks_peer_cases [OF env0_handlers, of sync_bob bob True 5, unfolded pid lbi sid]
  note b = downloadBlocks_peer_cases [OF env_sendfail_handlers, of sync_bob bob True 5, unfolded pid lbi sid]
  note elig' = elig [unfolded pid]
  from a elig' ok have a1: "fst (downloadBlocks_peer env0 True bob (5, sync_bob)) = 5 + 23"
    by simp
  from a elig' ok
  have a2: "\<exists>s \<in> set (sessions (peerSet (snd (downloadBlocks_peer env0 True bob (5, sync_bob))))).
               SessionID s = 0 \<and> SessionPeerID s = ''bob''"
    by auto
  from b elig' fail have b1: "fst (downloadBlocks_peer env_sendfail True bob (5, sync_bob)) = 5"
    by simp
  from b elig' fail
  have b2: "\<not> HasOpenSession (peerSet (snd (downloadBlocks_peer env_sendfail True bob (5, sync_bob)))) ''bob''"
    by simp
  from a1 a2 b1 b2 show ?thesis by (auto simp: HasOpenSession_def)
qed

subsection \<open>updateBlockchain\<close>

text \<open>The cursor loop returns once it reaches a height that is not cached: after \<open>k\<close>
  cached heights above \<open>h\<close> it returns \<open>h + k\<close>.\<close>

lemma skipCachedBlocks_run:
  "(\<forall>i<k. HasBlockInCache c (h + 1 + of_nat i)) \<Longrightarrow> \<not> HasBlockInCache c (h + 1 + of_nat k) \<Longrightarrow>
   skipCachedBlocks c h = Some (h + of_nat k)"
proof (induction k arbitrary: h)
  case 0
  then show ?case by (simp add: skipCachedBlocks.simps [of c h])
next
  case (Suc k)
  have shift: "\<And>i. h + 1 + of_nat (Suc i) = h + 1 + 1 + of_nat i" by simp
  from Suc.prems(1) have first: "HasBlockInCache c (h + 1)"
    by (auto dest: spec [of _ 0])
  have cached: "\<forall>i<k. HasBlockInCache c (h + 1 + 1 + of_nat i)"
  proof (intro allI impI)
    fix i assume "i < k"
    then have "Suc i < Suc k" by simp
    with Suc.prems(1) have "HasBlockInCache c (h + 1 + of_nat (Suc i))" by blast
    then show "HasBlockInCache c (h + 1 + 1 + of_nat i)" unfolding shift .
  qed
  have missing: "\<not> HasBlockInCache c (h + 1 + 1 + of_nat k)"
    using Suc.prems(2) unfolding shift .
  have "skipCachedBlocks c h = skipCachedBlocks c (h + 1)"
    using first by (simp add: skipCachedBlocks.simps [of c h])
  also have "\<dots> = Some (h + 1 + of_nat k)"
    using cached missing by (rule Suc.IH)
  also have "h + 1 + of_nat k = h + of_nat (Suc k)" by simp
  finally show ?case .
qed

text \<open>
  C1: \<^verbatim>\<open>updateBlockchain\<close> returns with the synchronizer unchanged, so without any
  download, when a session is open or when the number of expected blocks is at
  most 1. Otherwise, when the \<open>k\<close> heights above the tip are cached and the next one
  is not, it returns after the call of \<^verbatim>\<open>downloadBlocks\<close> with the cursor \<open>tip + k\<close>,
  and with \<open>onlyNodeNetwork\<close> true exactly when the number of expected blocks is
  above \<^verbatim>\<open>LatestBlockInterval\<close>.
\<close>

theorem updateBlockchain_cases:
  fixes e :: env and sync :: synchronizer and k :: nat
  defines "n \<equiv> numOfBlocks e (Now e) (state sync)"
    and "tip \<equiv> LastBlockHeight (state sync)"
  shows "(HasAnyOpenSession (peerSet sync) \<or> n \<le> 1 \<longrightarrow> updateBlockchain e sync = Some sync) \<and>
    (\<not> HasAnyOpenSession (peerSet sync) \<and> 1 < n \<and>
       (\<forall>i<k. HasBlockInCache (cache sync) (tip + 1 + of_nat i)) \<and>
       \<not> HasBlockInCache (cache sync) (tip + 1 + of_nat k) \<longrightarrow>
       updateBlockchain e sync =
         Some (downloadBlocks e (tip + of_nat k) (LatestBlockInterval e < n) sync))"
proof (intro conjI impI)
  assume "HasAnyOpenSession (peerSet sync) \<or> n \<le> 1"
  then show "updateBlockchain e sync = Some sync"
    by (auto simp: updateBlockchain_def n_def Let_def)
next
  assume a: "\<not> HasAnyOpenSession (peerSet sync) \<and> 1 < n \<and>
       (\<forall>i<k. HasBlockInCache (cache sync) (tip + 1 + of_nat i)) \<and>
       \<not> HasBlockInCache (cache sync) (tip + 1 + of_nat k)"
  then have "skipCachedBlocks (cache sync) tip = Some (tip + of_nat k)"
    by (intro skipCachedBlocks_run) simp_all
  moreover from a have "\<not> n \<le> 1" by (simp add: not_le)
  ultimately show "updateBlockchain e sync =
         Some (downloadBlocks e (tip + of_nat k) (LatestBlockInterval e < n) sync)"
    using a by (simp add: updateBlockchain_def n_def [symmetric] tip_def [symmetric] Let_def)
qed

theorem updateBlockchain_cases_witness:
  "updateBlockchain env0 sync_cached = Some (downloadBlocks env0 7 True sync_cached) \<and>
   updateBlockchain env0 (sync_cached\<lparr>peerSet := snd (OpenSession ''bob'' 0 (peerSet sync_cached))\<rparr>) =
     Some (sync_cached\<lparr>peerSet := snd (OpenSession ''bob'' 0 (peerSet sync_cached))\<rparr>)"
proof -
  have n: "\<And>s. numOfBlocks env0 (Now env0) (state s) = 100" "LatestBlockInterval env0 = 23"
    by (simp_all add: env0_def)
  have tip: "LastBlockHeight (state sync_cached) = 5"
    by (simp add: sync_cached_def sync_bob_def sync0_def state5_def)
  have no: "\<not> HasAnyOpenSession (peerSet sync_cached)"
    by (simp add: HasAnyOpenSession_def sync_cached_def sync_bob_def NewPeerSet_def)
  have c: "\<forall>i<2. HasBlockInCache (cache sync_cached) (5 + 1 + of_nat i)"
    "\<not> HasBlockInCache (cache sync_cached) (5 + 1 + of_nat 2)"
    by (simp_all add: HasBlockInCache_def sync_cached_def cache67_def less_2_cases_iff)
  have op: "HasAnyOpenSession (peerSet (sync_cached\<lparr>peerSet := snd (OpenSession ''bob'' 0 (peerSet sync_cached))\<rparr>))"
    by (simp add: HasAnyOpenSession_def OpenSession_def Let_def)
  from updateBlockchain_cases [of sync_cached env0 2] no c
  have 1: "updateBlockchain env0 sync_cached = Some (downloadBlocks env0 7 True sync_cached)"
    by (simp add: n tip)
  from updateBlockchain_cases [of "sync_cached\<lparr>peerSet := snd (OpenSession ''bob'' 0 (peerSet sync_cached))\<rparr>" env0 0] op
  have 2: "updateBlockchain env0 (sync_cached\<lparr>peerSet := snd (OpenSession ''bob'' 0 (peerSet sync_cached))\<rparr>) =
     Some (sync_cached\<lparr>peerSet := snd (OpenSession ''bob'' 0 (peerSet sync_cached))\<rparr>)"
    by blast
  from 1 2 show ?thesis by simp
qed

subsection \<open>tryCommitBlocks\<close>

text \<open>The loop over the transactions returns the error of the first stripped key
  that the state cannot give, and otherwise the transactions with every stripped key
  set.\<close>

lemma resolvePublicKeys_first_error:
  "resolvePublicKeys st trxs =
     (case find (\<lambda>trx. IsPublicKeyStriped trx \<and> isl (PublicKey st (Signer trx))) trxs of
        Some trx \<Rightarrow> Inl (projl (PublicKey st (Signer trx)))
      | None \<Rightarrow>
          Inr (map (\<lambda>trx. if IsPublicKeyStriped trx
                          then SetPublicKey (projr (PublicKey st (Signer trx))) trx
                          else trx) trxs))"
  by (induction trxs) (auto split: sum.splits option.splits)

text \<open>One turn of the loop, told by what the cache, the state, the two basic checks
  and \<^verbatim>\<open>CommitBlock\<close> answer.\<close>

lemma commitTurn_NothingCached:
  "commitTurn e sync h = NothingCached \<longleftrightarrow>
   GetBlock (cache sync) h = None \<or> GetCertificate (cache sync) h = None"
  by (auto simp: commitTurn_def split: option.splits sum.splits)

lemma commitTurn_Committed:
  "commitTurn e sync h = Committed st' \<longleftrightarrow>
   (\<exists>blk cert.
      GetBlock (cache sync) h = Some blk \<and> GetCertificate (cache sync) h = Some cert \<and>
      find (\<lambda>trx. IsPublicKeyStriped trx \<and> isl (PublicKey (state sync) (Signer trx)))
        (Transactions blk) = None \<and>
      BlockBasicCheck e
        (blk\<lparr>Transactions :=
           map (\<lambda>trx. if IsPublicKeyStriped trx
                      then SetPublicKey (projr (PublicKey (state sync) (Signer trx))) trx
                      else trx) (Transactions blk)\<rparr>) = None \<and>
      CertBasicCheck e cert = None \<and>
      CommitBlock e (state sync)
        (blk\<lparr>Transactions :=
           map (\<lambda>trx. if IsPublicKeyStriped trx
                      then SetPublicKey (projr (PublicKey (state sync) (Signer trx))) trx
                      else trx) (Transactions blk)\<rparr>) cert = Inr st')"
  by (auto simp: commitTurn_def commitBlockAndCert_def resolvePublicKeys_first_error Let_def
      split: option.splits sum.splits)

lemma commitTurn_Failed:
  "commitTurn e sync h = Failed er \<longleftrightarrow>
   (\<exists>blk cert.
      GetBlock (cache sync) h = Some blk \<and> GetCertificate (cache sync) h = Some cert \<and>
      ((\<exists>trx. find (\<lambda>trx. IsPublicKeyStriped trx \<and> isl (PublicKey (state sync) (Signer trx)))
                (Transactions blk) = Some trx \<and>
              PublicKey (state sync) (Signer trx) = Inl er) \<or>
       find (\<lambda>trx. IsPublicKeyStriped trx \<and> isl (PublicKey (state sync) (Signer trx)))
         (Transactions blk) = None \<and>
       (BlockBasicCheck e
          (blk\<lparr>Transactions :=
             map (\<lambda>trx. if IsPublicKeyStriped trx
                        then SetPublicKey (projr (PublicKey (state sync) (Signer trx))) trx
                        else trx) (Transactions blk)\<rparr>) = Some er \<or>
        BlockBasicCheck e
          (blk\<lparr>Transactions :=
             map (\<lambda>trx. if IsPublicKeyStriped trx
                        then SetPublicKey (projr (PublicKey (state sync) (Signer trx))) trx
                        else trx) (Transactions blk)\<rparr>) = None \<and>
        (CertBasicCheck e cert = Some er \<or>
         CertBasicCheck e cert = None \<and>
         CommitBlock e (state sync)
           (blk\<lparr>Transactions :=
              map (\<lambda>trx. if IsPublicKeyStriped trx
                         then SetPublicKey (projr (PublicKey (state sync) (Signer trx))) trx
                         else trx) (Transactions blk)\<rparr>) cert = Inl er))))"
proof -
  have k: "\<And>trx. isl (PublicKey (state sync) (Signer trx)) \<Longrightarrow>
      (projl (PublicKey (state sync) (Signer trx)) = er) = (PublicKey (state sync) (Signer trx) = Inl er)"
    by (auto simp: isl_def)
  have f: "\<And>trx trxs. find (\<lambda>trx. IsPublicKeyStriped trx \<and> isl (PublicKey (state sync) (Signer trx))) trxs = Some trx
      \<Longrightarrow> isl (PublicKey (state sync) (Signer trx))"
    by (auto simp: find_Some_iff)
  show ?thesis
    by (auto simp: commitTurn_def commitBlockAndCert_def resolvePublicKeys_first_error Let_def k f
        split: option.splits sum.splits dest: f)
qed


text \<open>The loop returns when some height at or above \<open>h\<close> lacks the block or the
  certificate. The states \<open>S 0\<close>, \<open>S 1\<close>, ... are those that the successive commits
  leave.\<close>

lemma tryCommitBlocks_loop_run:
  assumes "GetBlock (cache sync) (h + of_nat k) = None \<or>
           GetCertificate (cache sync) (h + of_nat k) = None"
  shows "\<exists>err n S.
     tryCommitBlocks_loop e sync h acc =
       Some (err, sync\<lparr>state := S n\<rparr>, acc @ map (\<lambda>i. h + of_nat i) [0..<n]) \<and>
     n \<le> k \<and> S 0 = state sync \<and>
     (\<forall>i<n. commitTurn e (sync\<lparr>state := S i\<rparr>) (h + of_nat i) = Committed (S (Suc i))) \<and>
     commitTurn e (sync\<lparr>state := S n\<rparr>) (h + of_nat n) =
       (case err of None \<Rightarrow> NothingCached | Some er \<Rightarrow> Failed er)"
  using assms
proof (induction k arbitrary: sync h acc)
  case 0
  then have t: "commitTurn e sync h = NothingCached"
    by (simp add: commitTurn_NothingCached)
  define S where "S = (\<lambda>i::nat. state sync)"
  have "tryCommitBlocks_loop e sync h acc =
       Some (None, sync\<lparr>state := S 0\<rparr>, acc @ map (\<lambda>i. h + of_nat i) [0..<0]) \<and>
     (0::nat) \<le> 0 \<and> S 0 = state sync \<and>
     (\<forall>i<0. commitTurn e (sync\<lparr>state := S i\<rparr>) (h + of_nat i) = Committed (S (Suc i))) \<and>
     commitTurn e (sync\<lparr>state := S 0\<rparr>) (h + of_nat 0) =
       (case None of None \<Rightarrow> NothingCached | Some er \<Rightarrow> Failed er)"
    using t by (simp add: tryCommitBlocks_loop.simps [of e sync h] S_def)
  then show ?case by blast
next
  case (Suc k)
  show ?case
  proof (cases "commitTurn e sync h")
    case NothingCached
    define S where "S = (\<lambda>i::nat. state sync)"
    have "tryCommitBlocks_loop e sync h acc =
         Some (None, sync\<lparr>state := S 0\<rparr>, acc @ map (\<lambda>i. h + of_nat i) [0..<0]) \<and>
       (0::nat) \<le> Suc k \<and> S 0 = state sync \<and>
       (\<forall>i<0. commitTurn e (sync\<lparr>state := S i\<rparr>) (h + of_nat i) = Committed (S (Suc i))) \<and>
       commitTurn e (sync\<lparr>state := S 0\<rparr>) (h + of_nat 0) =
         (case None of None \<Rightarrow> NothingCached | Some er \<Rightarrow> Failed er)"
      using NothingCached by (simp add: tryCommitBlocks_loop.simps [of e sync h] S_def)
    then show ?thesis by blast
  next
    case (Failed er)
    define S where "S = (\<lambda>i::nat. state sync)"
    have "tryCommitBlocks_loop e sync h acc =
         Some (Some er, sync\<lparr>state := S 0\<rparr>, acc @ map (\<lambda>i. h + of_nat i) [0..<0]) \<and>
       (0::nat) \<le> Suc k \<and> S 0 = state sync \<and>
       (\<forall>i<0. commitTurn e (sync\<lparr>state := S i\<rparr>) (h + of_nat i) = Committed (S (Suc i))) \<and>
       commitTurn e (sync\<lparr>state := S 0\<rparr>) (h + of_nat 0) =
         (case Some er of None \<Rightarrow> NothingCached | Some er \<Rightarrow> Failed er)"
      using Failed by (simp add: tryCommitBlocks_loop.simps [of e sync h] S_def)
    then show ?thesis by blast
  next
    case (Committed st1)
    define sync1 where "sync1 = sync\<lparr>state := st1\<rparr>"
    have c1: "cache sync1 = cache sync" by (simp add: sync1_def)
    have shift: "\<And>i. h + 1 + of_nat i = h + of_nat (Suc i)" by simp
    from Suc.prems have "GetBlock (cache sync1) (h + 1 + of_nat k) = None \<or>
           GetCertificate (cache sync1) (h + 1 + of_nat k) = None"
      unfolding c1 shift .
    from Suc.IH [OF this, of "acc @ [h]"]
    obtain err n S' where
      run: "tryCommitBlocks_loop e sync1 (h + 1) (acc @ [h]) =
         Some (err, sync1\<lparr>state := S' n\<rparr>, (acc @ [h]) @ map (\<lambda>i. h + 1 + of_nat i) [0..<n])"
      and le: "n \<le> k"
      and start: "S' 0 = state sync1"
      and turns: "\<forall>i<n. commitTurn e (sync1\<lparr>state := S' i\<rparr>) (h + 1 + of_nat i) = Committed (S' (Suc i))"
      and last: "commitTurn e (sync1\<lparr>state := S' n\<rparr>) (h + 1 + of_nat n) =
         (case err of None \<Rightarrow> NothingCached | Some er \<Rightarrow> Failed er)"
      by blast
    define S where "S = (\<lambda>i. case i of 0 \<Rightarrow> state sync | Suc j \<Rightarrow> S' j)"
    have S0: "S 0 = state sync" and SS: "\<And>j. S (Suc j) = S' j"
      by (simp_all add: S_def)
    have s: "\<And>st. sync1\<lparr>state := st\<rparr> = sync\<lparr>state := st\<rparr>" by (simp add: sync1_def)
    have st1: "S' 0 = st1" using start by (simp add: sync1_def)
    have m: "(acc @ [h]) @ map (\<lambda>i. h + 1 + of_nat i) [0..<n] =
             acc @ map (\<lambda>i. h + of_nat i) [0..<Suc n]"
      by (simp add: upt_conv_Cons map_Suc_upt [symmetric] shift del: upt_Suc of_nat_Suc)
    have "tryCommitBlocks_loop e sync h acc = tryCommitBlocks_loop e sync1 (h + 1) (acc @ [h])"
      using Committed by (simp add: tryCommitBlocks_loop.simps [of e sync h] sync1_def)
    with run have 1: "tryCommitBlocks_loop e sync h acc =
         Some (err, sync\<lparr>state := S (Suc n)\<rparr>, acc @ map (\<lambda>i. h + of_nat i) [0..<Suc n])"
      by (simp only: s m SS)
    have 2: "\<forall>i<Suc n. commitTurn e (sync\<lparr>state := S i\<rparr>) (h + of_nat i) = Committed (S (Suc i))"
    proof (intro allI impI)
      fix i assume "i < Suc n"
      show "commitTurn e (sync\<lparr>state := S i\<rparr>) (h + of_nat i) = Committed (S (Suc i))"
      proof (cases i)
        case 0
        with Committed show ?thesis by (simp add: S0 SS st1)
      next
        case (Suc j)
        with \<open>i < Suc n\<close> have "j < n" by simp
        with turns have "commitTurn e (sync1\<lparr>state := S' j\<rparr>) (h + 1 + of_nat j) = Committed (S' (Suc j))"
          by blast
        then show ?thesis unfolding s shift Suc SS .
      qed
    qed
    from last have 3: "commitTurn e (sync\<lparr>state := S (Suc n)\<rparr>) (h + of_nat (Suc n)) =
         (case err of None \<Rightarrow> NothingCached | Some er \<Rightarrow> Failed er)"
      unfolding s shift SS .
    from le have "Suc n \<le> Suc k" by simp
    with 1 2 3 S0 show ?thesis by blast
  qed
qed


lemma heights_increasing:
  fixes h :: u32
  assumes "unat h + n \<le> 2 ^ 32"
  shows "sorted_wrt (<) (map (\<lambda>i. h + of_nat i) [0..<n])"
proof -
  have u: "unat (h + of_nat i) = unat h + i" if "i < n" for i
  proof -
    from that assms have "unat h + i < 2 ^ 32" by linarith
    moreover from this have "i < 2 ^ 32" by linarith
    ultimately show ?thesis
      by (simp add: unat_word_ariths unat_of_nat)
  qed
  have "sorted_wrt (\<lambda>i j. h + of_nat i < h + of_nat j) [0..<n]"
  proof (rule sorted_wrt_mono_rel [of _ "(<)"])
    fix i j assume "i \<in> set [0..<n]" "j \<in> set [0..<n]" "i < j"
    then show "h + of_nat i < h + of_nat j"
      by (simp add: word_less_nat_alt u)
  qed simp
  then show ?thesis by (simp add: sorted_wrt_map)
qed

text \<open>
  C3, amended: when some height above the tip lacks the block or the certificate in
  the cache, \<^verbatim>\<open>tryCommitBlocks\<close> returns. The heights at which it has called
  \<^verbatim>\<open>CommitBlock\<close> with success are, in the order of the calls, \<open>tip + 1\<close>,
  \<open>tip + 2\<close>, ..., each the \<^verbatim>\<open>uint32\<close> successor of the one before with none left
  out, and strictly increasing as long as they stay below \<open>2^32\<close>. At each of
  them the cache held the block and the certificate, every stripped key was given by
  the state, both basic checks passed, and \<^verbatim>\<open>CommitBlock\<close> took the block with
  its keys set from the state that the commit before had left to the next state; the
  synchronizer returned differs from the first one in the last of these states only.
  No error is returned only when the cache lacks the block or the certificate of the
  next height. An error is returned exactly when, at the next height, the first
  failing step (the lookup of a stripped key, the basic check of the block, the
  basic check of the certificate, \<^verbatim>\<open>CommitBlock\<close>) gave that error, and nothing is
  committed after it.
\<close>

theorem tryCommitBlocks_run:
  fixes e :: env and sync :: synchronizer and k :: nat
  defines "h \<equiv> LastBlockHeight (state sync) + 1"
    and "keyFails \<equiv> \<lambda>st trx. IsPublicKeyStriped trx \<and> isl (PublicKey st (Signer trx))"
    and "withKeys \<equiv> \<lambda>st blk.
           blk\<lparr>Transactions :=
             map (\<lambda>trx. if IsPublicKeyStriped trx
                        then SetPublicKey (projr (PublicKey st (Signer trx))) trx
                        else trx) (Transactions blk)\<rparr>"
  assumes miss: "GetBlock (cache sync) (h + of_nat k) = None \<or>
                 GetCertificate (cache sync) (h + of_nat k) = None"
  shows "\<exists>err n S.
     tryCommitBlocks e sync = Some (err, sync\<lparr>state := S n\<rparr>, map (\<lambda>i. h + of_nat i) [0..<n]) \<and>
     n \<le> k \<and> S 0 = state sync \<and>
     (\<forall>i<n. \<exists>blk cert.
        GetBlock (cache sync) (h + of_nat i) = Some blk \<and>
        GetCertificate (cache sync) (h + of_nat i) = Some cert \<and>
        find (keyFails (S i)) (Transactions blk) = None \<and>
        BlockBasicCheck e (withKeys (S i) blk) = None \<and>
        CertBasicCheck e cert = None \<and>
        CommitBlock e (S i) (withKeys (S i) blk) cert = Inr (S (Suc i))) \<and>
     (unat h + n \<le> 2 ^ 32 \<longrightarrow> sorted_wrt (<) (map (\<lambda>i. h + of_nat i) [0..<n])) \<and>
     (err = None \<longrightarrow>
        GetBlock (cache sync) (h + of_nat n) = None \<or>
        GetCertificate (cache sync) (h + of_nat n) = None) \<and>
     (\<forall>er. err = Some er \<longrightarrow>
        (\<exists>blk cert.
           GetBlock (cache sync) (h + of_nat n) = Some blk \<and>
           GetCertificate (cache sync) (h + of_nat n) = Some cert \<and>
           ((\<exists>trx. find (keyFails (S n)) (Transactions blk) = Some trx \<and>
                   PublicKey (S n) (Signer trx) = Inl er) \<or>
            find (keyFails (S n)) (Transactions blk) = None \<and>
            (BlockBasicCheck e (withKeys (S n) blk) = Some er \<or>
             BlockBasicCheck e (withKeys (S n) blk) = None \<and>
             (CertBasicCheck e cert = Some er \<or>
              CertBasicCheck e cert = None \<and>
              CommitBlock e (S n) (withKeys (S n) blk) cert = Inl er)))))"
proof -
  from tryCommitBlocks_loop_run [OF miss, of e "[]"]
  obtain err n S where
    run: "tryCommitBlocks_loop e sync h [] =
       Some (err, sync\<lparr>state := S n\<rparr>, [] @ map (\<lambda>i. h + of_nat i) [0..<n])"
    and le: "n \<le> k" and start: "S 0 = state sync"
    and turns: "\<forall>i<n. commitTurn e (sync\<lparr>state := S i\<rparr>) (h + of_nat i) = Committed (S (Suc i))"
    and last: "commitTurn e (sync\<lparr>state := S n\<rparr>) (h + of_nat n) =
       (case err of None \<Rightarrow> NothingCached | Some er \<Rightarrow> Failed er)"
    by blast
  from run have 1: "tryCommitBlocks e sync =
      Some (err, sync\<lparr>state := S n\<rparr>, map (\<lambda>i. h + of_nat i) [0..<n])"
    by (simp add: tryCommitBlocks_def h_def)
  have 2: "\<forall>i<n. \<exists>blk cert.
        GetBlock (cache sync) (h + of_nat i) = Some blk \<and>
        GetCertificate (cache sync) (h + of_nat i) = Some cert \<and>
        find (keyFails (S i)) (Transactions blk) = None \<and>
        BlockBasicCheck e (withKeys (S i) blk) = None \<and>
        CertBasicCheck e cert = None \<and>
        CommitBlock e (S i) (withKeys (S i) blk) cert = Inr (S (Suc i))"
  proof (intro allI impI)
    fix i assume "i < n"
    with turns have "commitTurn e (sync\<lparr>state := S i\<rparr>) (h + of_nat i) = Committed (S (Suc i))"
      by blast
    then show "\<exists>blk cert.
        GetBlock (cache sync) (h + of_nat i) = Some blk \<and>
        GetCertificate (cache sync) (h + of_nat i) = Some cert \<and>
        find (keyFails (S i)) (Transactions blk) = None \<and>
        BlockBasicCheck e (withKeys (S i) blk) = None \<and>
        CertBasicCheck e cert = None \<and>
        CommitBlock e (S i) (withKeys (S i) blk) cert = Inr (S (Suc i))"
      by (simp add: commitTurn_Committed keyFails_def withKeys_def cong: if_cong)
  qed
  have 3: "unat h + n \<le> 2 ^ 32 \<longrightarrow> sorted_wrt (<) (map (\<lambda>i. h + of_nat i) [0..<n])"
    using heights_increasing by blast
  have 4: "err = None \<longrightarrow>
        GetBlock (cache sync) (h + of_nat n) = None \<or>
        GetCertificate (cache sync) (h + of_nat n) = None"
    using last commitTurn_NothingCached [of e "sync\<lparr>state := S n\<rparr>" "h + of_nat n"] by auto
  have 5: "\<forall>er. err = Some er \<longrightarrow>
        (\<exists>blk cert.
           GetBlock (cache sync) (h + of_nat n) = Some blk \<and>
           GetCertificate (cache sync) (h + of_nat n) = Some cert \<and>
           ((\<exists>trx. find (keyFails (S n)) (Transactions blk) = Some trx \<and>
                   PublicKey (S n) (Signer trx) = Inl er) \<or>
            find (keyFails (S n)) (Transactions blk) = None \<and>
            (BlockBasicCheck e (withKeys (S n) blk) = Some er \<or>
             BlockBasicCheck e (withKeys (S n) blk) = None \<and>
             (CertBasicCheck e cert = Some er \<or>
              CertBasicCheck e cert = None \<and>
              CommitBlock e (S n) (withKeys (S n) blk) cert = Inl er))))"
  proof (intro allI impI)
    fix er assume "err = Some er"
    with last have "commitTurn e (sync\<lparr>state := S n\<rparr>) (h + of_nat n) = Failed er" by simp
    then show "\<exists>blk cert.
           GetBlock (cache sync) (h + of_nat n) = Some blk \<and>
           GetCertificate (cache sync) (h + of_nat n) = Some cert \<and>
           ((\<exists>trx. find (keyFails (S n)) (Transactions blk) = Some trx \<and>
                   PublicKey (S n) (Signer trx) = Inl er) \<or>
            find (keyFails (S n)) (Transactions blk) = None \<and>
            (BlockBasicCheck e (withKeys (S n) blk) = Some er \<or>
             BlockBasicCheck e (withKeys (S n) blk) = None \<and>
             (CertBasicCheck e cert = Some er \<or>
              CertBasicCheck e cert = None \<and>
              CommitBlock e (S n) (withKeys (S n) blk) cert = Inl er)))"
      by (simp add: commitTurn_Failed keyFails_def withKeys_def cong: if_cong)
  qed
  from 1 le start 2 3 4 5 show ?thesis by blast
qed


text \<open>
  C3 as stated fails where the heights wrap around: from the tip \<open>2^32 - 2\<close>, with
  blocks and certificates cached at \<open>2^32 - 1\<close> and at 0, \<^verbatim>\<open>tryCommitBlocks\<close> commits
  at \<open>2^32 - 1\<close> and then at 0, which is not an increasing sequence of heights.
\<close>

theorem heights_wrap_around:
  "LastBlockHeight (state sync_top) = 0xFFFFFFFE \<and>
   tryCommitBlocks env0 sync_top =
     Some (None, sync_top\<lparr>state := state_top\<lparr>LastBlockHeight := 0\<rparr>\<rparr>, [0xFFFFFFFF, 0]) \<and>
   \<not> sorted_wrt (<) [0xFFFFFFFF, 0 :: u32]"
  by (simp add: tryCommitBlocks_def tryCommitBlocks_loop.simps commitTurn_def commitBlockAndCert_def
      GetBlock_def GetCertificate_def sync_top_def state_top_def cache_top_def sync0_def state5_def
      block6_def block7_def env0_def IsPublicKeyStriped_def SetPublicKey_def)

lemma tryCommitBlocks_env0:
  "tryCommitBlocks env0 sync_cached =
     Some (None, sync_cached\<lparr>state := state5\<lparr>LastBlockHeight := 7\<rparr>\<rparr>, [6, 7])"
  by (simp add: tryCommitBlocks_def tryCommitBlocks_loop.simps commitTurn_def commitBlockAndCert_def
      GetBlock_def GetCertificate_def sync_cached_def sync_bob_def sync0_def state5_def cache67_def
      block6_def block7_def env0_def IsPublicKeyStriped_def SetPublicKey_def)

lemma tryCommitBlocks_env_certfail:
  "tryCommitBlocks env_certfail sync_cached =
     Some (Some (ErrGeneric ''bad certificate''),
           sync_cached\<lparr>state := state5\<lparr>LastBlockHeight := 6\<rparr>\<rparr>, [6])"
  by (simp add: tryCommitBlocks_def tryCommitBlocks_loop.simps commitTurn_def commitBlockAndCert_def
      GetBlock_def GetCertificate_def sync_cached_def sync_bob_def sync0_def state5_def cache67_def
      block6_def block7_def env0_def env_certfail_def IsPublicKeyStriped_def SetPublicKey_def)


theorem tryCommitBlocks_run_witness:
  "GetBlock (cache sync_cached) (LastBlockHeight (state sync_cached) + 1 + of_nat 2) = None \<and>
   tryCommitBlocks env_certfail sync_cached \<noteq>
     Some (None, sync_cached\<lparr>state := state5\<lparr>LastBlockHeight := 7\<rparr>\<rparr>, [6, 7]) \<and>
   tryCommitBlocks env_certfail sync_cached =
     Some (Some (ErrGeneric ''bad certificate''),
           sync_cached\<lparr>state := state5\<lparr>LastBlockHeight := 6\<rparr>\<rparr>, [6]) \<and>
   tryCommitBlocks env0 sync_cached =
     Some (None, sync_cached\<lparr>state := state5\<lparr>LastBlockHeight := 7\<rparr>\<rparr>, [6, 7])"
proof -
  have tip: "LastBlockHeight (state sync_cached) + 1 = 6"
    by (simp add: sync_cached_def sync_bob_def sync0_def state5_def)
  have miss: "GetBlock (cache sync_cached) (LastBlockHeight (state sync_cached) + 1 + of_nat 2) = None"
    by (simp add: tip) (simp add: GetBlock_def sync_cached_def cache67_def)
  then have miss': "GetBlock (cache sync_cached) (LastBlockHeight (state sync_cached) + 1 + of_nat 2) = None \<or>
      GetCertificate (cache sync_cached) (LastBlockHeight (state sync_cached) + 1 + of_nat 2) = None"
    by (rule disjI1)
  have wrong: "tryCommitBlocks env_certfail sync_cached \<noteq>
     Some (None, sync_cached\<lparr>state := state5\<lparr>LastBlockHeight := 7\<rparr>\<rparr>, [6, 7])"
  proof
    assume w: "tryCommitBlocks env_certfail sync_cached =
       Some (None, sync_cached\<lparr>state := state5\<lparr>LastBlockHeight := 7\<rparr>\<rparr>, [6, 7])"
    from tryCommitBlocks_run [OF miss', of env_certfail, unfolded tip w]
    show False
    proof (elim exE conjE)
      fix err :: "error option" and n :: nat and S :: "nat \<Rightarrow> state"
      assume eq: "Some (None, sync_cached\<lparr>state := state5\<lparr>LastBlockHeight := 7\<rparr>\<rparr>, [6, 7]) =
           Some (err, sync_cached\<lparr>state := S n\<rparr>, map (\<lambda>i. (6::u32) + of_nat i) [0..<n])"
      assume turns: "\<forall>i<n. \<exists>blk cert.
          GetBlock (cache sync_cached) (6 + of_nat i) = Some blk \<and>
          GetCertificate (cache sync_cached) (6 + of_nat i) = Some cert \<and>
          find (\<lambda>trx. IsPublicKeyStriped trx \<and> isl (PublicKey (S i) (Signer trx)))
            (Transactions blk) = None \<and>
          BlockBasicCheck env_certfail
            (blk\<lparr>Transactions := map (\<lambda>trx. if IsPublicKeyStriped trx
                   then SetPublicKey (projr (PublicKey (S i) (Signer trx))) trx else trx)
                   (Transactions blk)\<rparr>) = None \<and>
          CertBasicCheck env_certfail cert = None \<and>
          CommitBlock env_certfail (S i)
            (blk\<lparr>Transactions := map (\<lambda>trx. if IsPublicKeyStriped trx
                   then SetPublicKey (projr (PublicKey (S i) (Signer trx))) trx else trx)
                   (Transactions blk)\<rparr>) cert = Inr (S (Suc i))"
      from eq have "[6, 7] = map (\<lambda>i. (6::u32) + of_nat i) [0..<n]" by simp
      then have "length [6, 7 :: u32] = length (map (\<lambda>i. (6::u32) + of_nat i) [0..<n])"
        by (rule arg_cong)
      then have one: "(1::nat) < n" by simp
      from turns [rule_format, OF one] obtain cert where
        "GetCertificate (cache sync_cached) (6 + of_nat 1) = Some cert"
        "CertBasicCheck env_certfail cert = None"
        by blast
      then show False
        by (simp add: GetCertificate_def sync_cached_def cache67_def env_certfail_def)
    qed
  qed
  from miss wrong tryCommitBlocks_env_certfail tryCommitBlocks_env0 show ?thesis
    by (intro conjI)
qed

end
